theory Spec2Isabelle
  imports Main "HOL-Library.Word"
begin

section \<open>Strings\<close>

text \<open>
  A JavaScript string is a sequence of UTF-16 code units. The strings whose content the
  manager inspects (words, word options and guesses) are modelled as lists of 16-bit
  words, and \<open>js\<close> writes such a string from an ASCII literal. The strings that are only
  stored and compared (the identifiers of sockets and rooms, names, avatars, colours) are
  plain \<open>string\<close>s.
\<close>

type_synonym codeUnit = "16 word"

type_synonym jsString = "codeUnit list"

definition js :: "string \<Rightarrow> jsString" where
  "js s = map (\<lambda>c. of_int (of_char c)) s"

text \<open>
  The white space of the regular expression class \<^verbatim>\<open>\s\<close> and of \<open>String.prototype.trim\<close>
  (the WhiteSpace and LineTerminator productions of ECMAScript): tab, line feed, vertical
  tab, form feed, carriage return, space, no-break space, U+1680, U+2000 to U+200A, the
  line and paragraph separators U+2028 and U+2029, U+202F, U+205F, U+3000 and the byte
  order mark U+FEFF.
\<close>

definition isWhitespace :: "codeUnit \<Rightarrow> bool" where
  "isWhitespace c =
     (c \<in> set [0x0009, 0x000A, 0x000B, 0x000C, 0x000D, 0x0020, 0x00A0, 0x1680, 0x2028,
                0x2029, 0x202F, 0x205F, 0x3000, 0xFEFF]
      \<or> (0x2000 \<le> c \<and> c \<le> 0x200A))"

text \<open>
  \<^verbatim>\<open>word.replace(/[^\s]/g, '_ ')\<close> of \<open>selectWord\<close>. The expression has no \<open>u\<close> flag, so it
  matches code unit by code unit: every code unit that is not white space is replaced by
  an underscore and a space.
\<close>

definition maskWord :: "jsString \<Rightarrow> jsString" where
  "maskWord word = concat (map (\<lambda>c. if isWhitespace c then [c] else js ''_ '') word)"

text \<open>\<open>String.prototype.trim\<close>: the white space at both ends is removed.\<close>

definition trim :: "jsString \<Rightarrow> jsString" where
  "trim s = rev (dropWhile isWhitespace (rev (dropWhile isWhitespace s)))"

text \<open>
  \<open>String.prototype.toUpperCase\<close> applies the case mapping of the Unicode version the
  runtime was built with. No table of it is fixed here: \<open>processGuess\<close> takes the function
  as its argument \<open>toUpperCase\<close>, and what is proved holds for every function. On a string
  of ASCII code units \<open>toUpperCase\<close> maps \<open>a\<close>..\<open>z\<close> to \<open>A\<close>..\<open>Z\<close> and keeps the rest, which is
  \<open>asciiUpperCase\<close>; the scenarios below, whose words and guesses are ASCII, use it.
\<close>

definition asciiUpperCase :: "jsString \<Rightarrow> jsString" where
  "asciiUpperCase s = map (\<lambda>c. if 0x61 \<le> c \<and> c \<le> 0x7A then c - 0x20 else c) s"

text \<open>Truthiness of a \<open>string | null\<close>: neither \<open>null\<close> nor the empty string.\<close>

definition truthy :: "jsString option \<Rightarrow> bool" where
  "truthy v = (case v of None \<Rightarrow> False | Some s \<Rightarrow> s \<noteq> [])"

definition WORDS :: "jsString list" where
  "WORDS = map js
    [''APPLE'', ''BANANA'', ''CAT'', ''DOG'', ''ELEPHANT'', ''FISH'', ''GUITAR'', ''HOUSE'',
     ''ICE CREAM'', ''JELLYFISH'', ''KITE'', ''LION'', ''MOON'', ''NEST'', ''OCTOPUS'',
     ''PENGUIN'', ''QUEEN'', ''ROBOT'', ''SUN'', ''TREE'', ''UMBRELLA'', ''VIOLIN'', ''WHALE'',
     ''XYLOPHONE'', ''YACHT'', ''ZEBRA'', ''CAR'', ''BUS'', ''TRAIN'', ''AIRPLANE'', ''BOAT'',
     ''BIKE'', ''COMPUTER'', ''PHONE'', ''BOOK'', ''PEN'', ''PENCIL'']"

section \<open>Numbers\<close>

text \<open>
  A JavaScript number is an IEEE 754 double. The numbers of the manager are integers: the
  server assigns integer constants and adds 1, -1, 10 or 50, and the numbers a client
  supplies (draw time, rounds, settings) are taken to be integers. They are modelled as
  \<open>int\<close>, and an addition gives the double nearest to the exact sum, ties going to the even
  significand: \<open>roundDouble\<close> keeps the 53 leading bits of an integer and rounds the rest
  away. (No sum of the manager reaches the largest double, so none is infinite.)
\<close>

function bitLength :: "int \<Rightarrow> nat" where
  "bitLength n = (if n \<le> 0 then 0 else Suc (bitLength (n div 2)))"
  by pat_completeness auto

termination bitLength
  by (relation "measure nat") auto

declare bitLength.simps [simp del]

definition roundDouble :: "int \<Rightarrow> int" where
  "roundDouble n =
     (if \<bar>n\<bar> < 2 ^ 53 then n
      else
        let m = \<bar>n\<bar>;
            k = bitLength m - 53;
            q = m div 2 ^ k;
            r = m mod 2 ^ k;
            q' = (if 2 ^ (k - 1) < r \<or> (r = 2 ^ (k - 1) \<and> odd q) then q + 1 else q)
        in sgn n * (q' * 2 ^ k))"

text \<open>\<open>a + b\<close>, and with it \<open>a += b\<close>, \<open>a++\<close> (\<open>b = 1\<close>) and \<open>a--\<close> (\<open>b = -1\<close>).\<close>

definition jsAdd :: "int \<Rightarrow> int \<Rightarrow> int" where
  "jsAdd a b = roundDouble (a + b)"

section \<open>Data model (types/index.ts, roomController.ts)\<close>

text \<open>The fields \<open>id\<close> of the source are \<open>pid\<close> (player) and \<open>rid\<close> (room).\<close>

datatype drawType = DrawStart | DrawDraw | DrawClear

record DrawData =
  dd_type :: drawType
  dd_x :: "int option"
  dd_y :: "int option"
  dd_color :: "string option"
  dd_size :: "int option"

record Player =
  pid :: string
  name :: string
  score :: int
  isHost :: bool
  avatar :: string
  socketId :: string

datatype roomStatus = Lobby | Playing | Ended

datatype phase = Starting | Selecting | Drawing | Review

datatype endReason = ByTimer | AllGuessed | DrawerLeft

text \<open>
  \<open>interface Room\<close>. An optional or never assigned field (\<open>revealedWord\<close>,
  \<open>roundEndReason\<close>) is \<open>None\<close> when absent; for a \<open>T | null\<close> field \<open>None\<close> is \<open>null\<close>.
\<close>

record Room =
  rid :: string
  players :: "Player list"
  status :: roomStatus
  currentRound :: int
  totalRounds :: int
  drawTime :: int
  currentDrawerId :: "string option"
  currentWord :: "jsString option"
  revealedWord :: "jsString option"
  wordsToChoose :: "jsString list"
  maxPlayers :: int
  hints :: int
  roundPhase :: "phase option"
  roundEndReason :: "endReason option"
  roundStartTime :: "int option"
  guessedCorrectly :: "string list"
  canvasHistory :: "DrawData list"

text \<open>
  \<open>interface ServerRoom extends Room\<close> adds \<open>secretWord\<close>, \<open>timer\<close> and \<open>drawnPlayers\<close>.
  The extension is made in two steps, because \<open>getPublicRoom\<close> removes \<open>secretWord\<close> and
  \<open>timer\<close> only: the object it returns still carries \<open>drawnPlayers\<close>.
  \<open>timer\<close> holds the handle of the last interval stored there; the code never resets it to
  \<open>null\<close>, so the handle may be stale.
\<close>

record SanitizedRoom = Room +
  drawnPlayers :: "string list"

record ServerRoom = SanitizedRoom +
  secretWord :: "jsString option"
  timer :: "nat option"

section \<open>Timers, notifications and the state of the manager\<close>

text \<open>
  What a live timer of the event loop will do, with the variables its closure holds:
  the countdown of \<open>startGame\<close>, the selection countdown of \<open>startNewRound\<close> (with the
  offered options), the drawing countdown of \<open>selectWord\<close>, and the single-shot delay
  of \<open>endRound\<close>.
\<close>

datatype timerAction =
    StartCountdown int
  | SelectCountdown int "jsString list"
  | DrawCountdown int
  | ReviewDelay

text \<open>What socket.ts sends: the target of \<open>io.to\<close> and the event.\<close>

datatype event =
    RoomUpdated SanitizedRoom
  | TimerUpdate int
  | ChooseWords "jsString list"
  | YourTurn jsString

type_synonym message = "string \<times> event"

text \<open>
  The state seen from one room: the key \<open>roomId\<close> under which \<open>this.rooms\<close> holds the
  room (the argument of every operation), the room object, whether \<open>this.rooms\<close> still holds it
  (timer closures keep the object after its deletion), the live timers of the event loop
  with their handles, the next fresh handle, and the messages sent so far. \<open>crashed\<close>
  tells that a call of \<open>startNewRound\<close> did not return (see there).
\<close>

record world =
  roomKey :: string
  room :: ServerRoom
  registered :: bool
  live :: "(nat \<times> timerAction) list"
  fresh :: nat
  outbox :: "message list"
  crashed :: bool

text \<open>The values of \<open>Math.random()\<close> used by one turn advance, as the indices they select.\<close>

record rand =
  drawerRand :: nat
  wordRand0 :: nat
  wordRand1 :: nat
  wordRand2 :: nat

definition clearInterval :: "nat \<Rightarrow> world \<Rightarrow> world" where
  "clearInterval h w = w\<lparr>live := filter (\<lambda>t. fst t \<noteq> h) (live w)\<rparr>"

text \<open>\<^verbatim>\<open>if (room.timer) clearInterval(room.timer)\<close>\<close>

definition clearRoomTimer :: "world \<Rightarrow> world" where
  "clearRoomTimer w = (case timer (room w) of None \<Rightarrow> w | Some h \<Rightarrow> clearInterval h w)"

text \<open>\<^verbatim>\<open>room.timer = setInterval(..., 1000)\<close>\<close>

definition setRoomInterval :: "timerAction \<Rightarrow> world \<Rightarrow> world" where
  "setRoomInterval a w =
     w\<lparr>room := (room w)\<lparr>timer := Some (fresh w)\<rparr>,
       live := live w @ [(fresh w, a)],
       fresh := Suc (fresh w)\<rparr>"

text \<open>\<^verbatim>\<open>setTimeout(..., 5000)\<close>: the handle is not kept anywhere.\<close>

definition setTimeout :: "timerAction \<Rightarrow> world \<Rightarrow> world" where
  "setTimeout a w = w\<lparr>live := live w @ [(fresh w, a)], fresh := Suc (fresh w)\<rparr>"

text \<open>\<open>getPublicRoom\<close>: \<open>secretWord\<close> and \<open>timer\<close> are dropped, \<open>wordsToChoose\<close> is emptied.\<close>

definition getPublicRoom :: "ServerRoom \<Rightarrow> SanitizedRoom" where
  "getPublicRoom r = (SanitizedRoom.truncate r)\<lparr>wordsToChoose := []\<rparr>"

text \<open>\<open>roomManager.onTick\<close> as socket.ts sets it.\<close>

definition onTick :: "int \<Rightarrow> world \<Rightarrow> world" where
  "onTick t w = w\<lparr>outbox := outbox w @ [(roomKey w, TimerUpdate t)]\<rparr>"

text \<open>
  \<open>roomManager.onRoomUpdate\<close> as socket.ts sets it, called with the public view of the room:
  the view goes to the whole room, the options and the secret word to the drawer only.
\<close>

definition onRoomUpdate :: "world \<Rightarrow> world" where
  "onRoomUpdate w =
     (let r = room w;
          m1 = [(roomKey w, RoomUpdated (getPublicRoom r))]
      in if \<not> registered w then w\<lparr>outbox := outbox w @ m1\<rparr>
         else
           (case currentDrawerId r of
              None \<Rightarrow> w\<lparr>outbox := outbox w @ m1\<rparr>
            | Some d \<Rightarrow>
                let m2 = (if roundPhase r = Some Selecting \<and> wordsToChoose r \<noteq> [] \<and> d \<noteq> []
                          then [(d, ChooseWords (wordsToChoose r))] else []);
                    m3 = (case secretWord r of
                            None \<Rightarrow> []
                          | Some s \<Rightarrow>
                              if roundPhase r = Some Drawing \<and> s \<noteq> [] \<and> d \<noteq> []
                              then [(d, YourTurn s)] else [])
                in w\<lparr>outbox := outbox w @ m1 @ m2 @ m3\<rparr>))"

section \<open>The operations of RoomManager\<close>

text \<open>
  Every operation starts with \<^verbatim>\<open>this.rooms.get(roomId)\<close> and returns at once when the room
  is not found. Where the source returns \<open>getPublicRoom(room)\<close> or \<open>null\<close>, the value is
  \<open>view\<close> of the resulting state.
\<close>

definition view :: "world \<Rightarrow> SanitizedRoom option" where
  "view w = (if registered w then Some (getPublicRoom (room w)) else None)"

definition createRoom ::
  "string \<Rightarrow> string \<Rightarrow> string \<Rightarrow> string \<Rightarrow> int option \<Rightarrow> int option \<Rightarrow> world" where
  "createRoom roomId username avatar' sid drawTime' rounds =
     \<lparr>roomKey = roomId,
      room =
        \<lparr>rid = roomId,
         players = [\<lparr>pid = sid, name = username, score = 0, isHost = True,
                     avatar = avatar', socketId = sid\<rparr>],
         status = Lobby,
         currentRound = 1,
         totalRounds = (case rounds of None \<Rightarrow> 3 | Some n \<Rightarrow> n),
         drawTime = (case drawTime' of None \<Rightarrow> 60 | Some n \<Rightarrow> n),
         currentDrawerId = None,
         currentWord = None,
         revealedWord = None,
         wordsToChoose = [],
         maxPlayers = 8,
         hints = 2,
         roundPhase = None,
         roundEndReason = None,
         roundStartTime = None,
         guessedCorrectly = [],
         canvasHistory = [],
         drawnPlayers = [],
         secretWord = None,
         timer = None\<rparr>,
      registered = True,
      live = [],
      fresh = 0,
      outbox = [],
      crashed = False\<rparr>"

definition endRound :: "world \<Rightarrow> world" where
  "endRound w =
     (if \<not> registered w then w
      else
        let w1 = clearRoomTimer w;
            w2 = w1\<lparr>room := (room w1)\<lparr>currentWord := secretWord (room w1),
                                      roundPhase := Some Review\<rparr>\<rparr>;
            w3 = onRoomUpdate w2
        in setTimeout ReviewDelay w3)"

text \<open>\<open>selectWord\<close>; \<open>now\<close> is the value of \<open>Date.now()\<close>.\<close>

definition selectWord :: "int \<Rightarrow> jsString \<Rightarrow> world \<Rightarrow> world" where
  "selectWord now word w =
     (if \<not> registered w then w
      else
        let w1 = clearRoomTimer w;
            w2 = w1\<lparr>room := (room w1)\<lparr>secretWord := Some word,
                                      currentWord := Some (maskWord word),
                                      roundPhase := Some Drawing,
                                      wordsToChoose := [],
                                      roundStartTime := Some now\<rparr>\<rparr>;
            w3 = setRoomInterval (DrawCountdown (drawTime (room w2))) w2
        in onRoomUpdate w3)"

datatype joinError = RoomNotFound | RoomFull

definition joinRoom ::
  "string \<Rightarrow> string \<Rightarrow> string \<Rightarrow> world \<Rightarrow> (joinError + SanitizedRoom) \<times> world" where
  "joinRoom username avatar' sid w =
     (if \<not> registered w then (Inl RoomNotFound, w)
      else if maxPlayers (room w) \<le> int (length (players (room w))) then (Inl RoomFull, w)
      else
        let newPlayer = \<lparr>pid = sid, name = username, score = 0, isHost = False,
                          avatar = avatar', socketId = sid\<rparr>;
            w1 = w\<lparr>room := (room w)\<lparr>players := players (room w) @ [newPlayer]\<rparr>\<rparr>
        in (Inr (getPublicRoom (room w1)), w1))"

text \<open>\<open>Array.prototype.findIndex\<close>, with \<open>None\<close> for \<open>-1\<close>.\<close>

fun findIndex :: "('a \<Rightarrow> bool) \<Rightarrow> 'a list \<Rightarrow> nat option" where
  "findIndex P [] = None"
| "findIndex P (x # xs) =
     (if P x then Some 0 else (case findIndex P xs of None \<Rightarrow> None | Some i \<Rightarrow> Some (Suc i)))"

text \<open>\<open>xs.splice(i, 1)\<close>: the list without the element at index \<open>i\<close>.\<close>

definition splice1 :: "nat \<Rightarrow> 'a list \<Rightarrow> 'a list" where
  "splice1 i xs = take i xs @ drop (Suc i) xs"

text \<open>
  \<open>leaveRoom\<close>; \<open>hostRand\<close> stands for \<open>Math.random()\<close>: the new host is the player at index
  \<open>Math.floor(Math.random() * room.players.length)\<close>, any index of the remaining list.
\<close>

definition leaveRoom :: "nat \<Rightarrow> string \<Rightarrow> world \<Rightarrow> SanitizedRoom option \<times> world" where
  "leaveRoom hostRand sid w =
     (if \<not> registered w then (None, w)
      else
        (case findIndex (\<lambda>p. socketId p = sid) (players (room w)) of
           None \<Rightarrow> (Some (getPublicRoom (room w)), w)
         | Some playerIndex \<Rightarrow>
             let wasHost = isHost (players (room w) ! playerIndex);
                 wasDrawer = (currentDrawerId (room w) = Some sid);
                 remaining = splice1 playerIndex (players (room w));
                 w1 = w\<lparr>room := (room w)\<lparr>players := remaining\<rparr>\<rparr>
             in if remaining = [] then (None, (clearRoomTimer w1)\<lparr>registered := False\<rparr>)
                else
                  let newHostIndex = hostRand mod length remaining;
                      w2 = (if wasHost
                            then w1\<lparr>room := (room w1)\<lparr>players :=
                                   remaining[newHostIndex :=
                                     (remaining ! newHostIndex)\<lparr>isHost := True\<rparr>]\<rparr>\<rparr>
                            else w1);
                      w3 = (if wasDrawer \<and> status (room w2) = Playing then endRound w2 else w2)
                  in (Some (getPublicRoom (room w3)), w3)))"

definition startGame :: "world \<Rightarrow> world" where
  "startGame w =
     (if \<not> registered w then w
      else
        let w1 = clearRoomTimer w;
            w2 = w1\<lparr>room := (room w1)\<lparr>status := Playing,
                                      currentRound := 1,
                                      drawnPlayers := [],
                                      roundPhase := Some Starting\<rparr>\<rparr>;
            w3 = onRoomUpdate w2;
            w4 = onTick 3 w3
        in setRoomInterval (StartCountdown 3) w4)"

text \<open>The three options of a turn: \<^verbatim>\<open>WORDS[Math.floor(Math.random() * WORDS.length)]\<close>.\<close>

definition pickOptions :: "rand \<Rightarrow> jsString list" where
  "pickOptions rnd =
     map (\<lambda>k. WORDS ! (k mod length WORDS)) [wordRand0 rnd, wordRand1 rnd, wordRand2 rnd]"

text \<open>
  The first half of \<open>startNewRound\<close>: the identifiers of players who left are removed from
  \<open>drawnPlayers\<close>; when everyone has drawn, the round is incremented (\<open>currentRound++\<close>) and
  the list cleared.
\<close>

definition cleanDrawn :: "ServerRoom \<Rightarrow> ServerRoom" where
  "cleanDrawn r =
     r\<lparr>drawnPlayers := filter (\<lambda>i. i \<in> set (map pid (players r))) (drawnPlayers r)\<rparr>"

definition everyoneDrew :: "ServerRoom \<Rightarrow> bool" where
  "everyoneDrew r = (length (players r) \<le> length (drawnPlayers r))"

definition nextRound :: "ServerRoom \<Rightarrow> ServerRoom" where
  "nextRound r =
     (if everyoneDrew r
      then r\<lparr>currentRound := jsAdd (currentRound r) 1, drawnPlayers := []\<rparr>
      else r)"

definition resetTurn :: "ServerRoom \<Rightarrow> ServerRoom" where
  "resetTurn r =
     r\<lparr>guessedCorrectly := [], canvasHistory := [], currentWord := None, secretWord := None\<rparr>"

definition availableDrawers :: "ServerRoom \<Rightarrow> Player list" where
  "availableDrawers r = filter (\<lambda>p. pid p \<notin> set (drawnPlayers r)) (players r)"

text \<open>
  \<open>startNewRound\<close>. When no player is left to draw, the source empties \<open>drawnPlayers\<close> and
  calls itself. While the room has players this happens at most once. In a room without
  players every call increments the round, and the calls end when the round exceeds
  \<open>totalRounds\<close>; but where the increment does not raise the round any more (at \<open>2 ^ 53\<close>
  the sum is rounded back), the source calls itself until the stack overflows, and nothing
  catches the \<open>RangeError\<close>. The model stops there, in the state of the last call, with
  \<open>crashed\<close> set; what the operations do to such a state afterwards describes no run of
  the program.
\<close>

function startNewRound :: "rand \<Rightarrow> world \<Rightarrow> world" where
  "startNewRound rnd w =
     (if \<not> registered w then w
      else
        let w1 = clearRoomTimer w;
            r2 = cleanDrawn (room w1);
            r3 = nextRound r2
        in if everyoneDrew r2 \<and> totalRounds r3 < currentRound r3
           then onRoomUpdate
                  (w1\<lparr>room := r3\<lparr>status := Ended, roundPhase := None, currentDrawerId := None\<rparr>\<rparr>)
           else
             let r4 = resetTurn r3
             in if availableDrawers r4 = []
                then
                  let w2 = w1\<lparr>room := r4\<lparr>drawnPlayers := []\<rparr>\<rparr>
                  in if players r4 = [] \<and> currentRound r4 \<le> currentRound (room w)
                     then w2\<lparr>crashed := True\<rparr>
                     else startNewRound rnd w2
                else
                  let drawer = availableDrawers r4
                                 ! (drawerRand rnd mod length (availableDrawers r4));
                      options = pickOptions rnd;
                      r5 = r4\<lparr>currentDrawerId := Some (pid drawer),
                              drawnPlayers := drawnPlayers r4 @ [pid drawer],
                              wordsToChoose := options,
                              roundPhase := Some Selecting\<rparr>;
                      w2 = onRoomUpdate (w1\<lparr>room := r5\<rparr>);
                      w3 = onTick 5 w2
                  in setRoomInterval (SelectCountdown 5 options) w3)"
  by pat_completeness auto

termination startNewRound
  apply (relation "measure (\<lambda>(rnd, w).
           (if players (room w) = []
            then nat (totalRounds (room w) + 1 - currentRound (room w)) else 0)
           + length (drawnPlayers (room w)))")
   apply simp
  apply (auto simp: clearRoomTimer_def clearInterval_def cleanDrawn_def nextRound_def
                    everyoneDrew_def resetTurn_def availableDrawers_def filter_empty_conv
              split: option.splits if_splits)
  done

declare startNewRound.simps [simp del]

text \<open>\<open>players.find(p => p.id === i)\<close> followed by \<open>score += n\<close> on the player found.\<close>

fun addScore :: "string \<Rightarrow> int \<Rightarrow> Player list \<Rightarrow> Player list" where
  "addScore i n [] = []"
| "addScore i n (p # ps) =
     (if pid p = i then p\<lparr>score := jsAdd (score p) n\<rparr> # ps else p # addScore i n ps)"

record guessResult =
  isCorrect :: bool
  awarded :: "int option"

text \<open>
  \<open>processGuess\<close>; \<open>toUpperCase\<close> is \<open>String.prototype.toUpperCase\<close> (see above), \<open>sid\<close> the
  socket of the sender.
\<close>

definition processGuess ::
  "(jsString \<Rightarrow> jsString) \<Rightarrow> string \<Rightarrow> jsString \<Rightarrow> world \<Rightarrow> guessResult \<times> world" where
  "processGuess toUpperCase sid guess w =
     (let r = room w
      in if \<not> registered w \<or> \<not> truthy (secretWord r) \<or> status r \<noteq> Playing
            \<or> roundPhase r \<noteq> Some Drawing
         then (\<lparr>isCorrect = False, awarded = None\<rparr>, w)
         else if currentDrawerId r = Some sid
         then (\<lparr>isCorrect = False, awarded = None\<rparr>, w)
         else if Some (toUpperCase (trim guess)) = map_option toUpperCase (secretWord r)
         then
           if sid \<in> set (guessedCorrectly r)
           then (\<lparr>isCorrect = True, awarded = None\<rparr>, w)
           else
             let points = 50;
                 ps1 = addScore sid points (players r);
                 ps2 = (case currentDrawerId r of
                          None \<Rightarrow> ps1
                        | Some d \<Rightarrow> addScore d 10 ps1);
                 w1 = w\<lparr>room := r\<lparr>players := ps2,
                                   guessedCorrectly := guessedCorrectly r @ [sid]\<rparr>\<rparr>;
                 guessers = filter (\<lambda>p. Some (pid p) \<noteq> currentDrawerId (room w1))
                              (players (room w1));
                 w2 = (if length guessers \<le> length (guessedCorrectly (room w1))
                       then endRound w1 else w1)
             in (\<lparr>isCorrect = True, awarded = Some points\<rparr>, w2)
         else (\<lparr>isCorrect = False, awarded = None\<rparr>, w))"

text \<open>
  The payload of \<open>updateSettings\<close>, a \<open>Partial<Room>\<close> as the client sends it: the list of
  its keys with their values. \<open>Object.assign\<close> copies every own key, also \<open>drawnPlayers\<close> and
  \<open>secretWord\<close>, which \<open>Partial<Room>\<close> does not declare. A key that no interface declares
  and the key \<open>timer\<close> (whose value is a handle of the event loop) are outside the model.
\<close>

datatype fieldUpdate =
    SetId string
  | SetPlayers "Player list"
  | SetStatus roomStatus
  | SetCurrentRound int
  | SetTotalRounds int
  | SetDrawTime int
  | SetCurrentDrawerId "string option"
  | SetCurrentWord "jsString option"
  | SetRevealedWord "jsString option"
  | SetWordsToChoose "jsString list"
  | SetMaxPlayers int
  | SetHints int
  | SetRoundPhase "phase option"
  | SetRoundEndReason "endReason option"
  | SetRoundStartTime "int option"
  | SetGuessedCorrectly "string list"
  | SetCanvasHistory "DrawData list"
  | SetDrawnPlayers "string list"
  | SetSecretWord "jsString option"

fun assignField :: "ServerRoom \<Rightarrow> fieldUpdate \<Rightarrow> ServerRoom" where
  "assignField r (SetId v) = r\<lparr>rid := v\<rparr>"
| "assignField r (SetPlayers v) = r\<lparr>players := v\<rparr>"
| "assignField r (SetStatus v) = r\<lparr>status := v\<rparr>"
| "assignField r (SetCurrentRound v) = r\<lparr>currentRound := v\<rparr>"
| "assignField r (SetTotalRounds v) = r\<lparr>totalRounds := v\<rparr>"
| "assignField r (SetDrawTime v) = r\<lparr>drawTime := v\<rparr>"
| "assignField r (SetCurrentDrawerId v) = r\<lparr>currentDrawerId := v\<rparr>"
| "assignField r (SetCurrentWord v) = r\<lparr>currentWord := v\<rparr>"
| "assignField r (SetRevealedWord v) = r\<lparr>revealedWord := v\<rparr>"
| "assignField r (SetWordsToChoose v) = r\<lparr>wordsToChoose := v\<rparr>"
| "assignField r (SetMaxPlayers v) = r\<lparr>maxPlayers := v\<rparr>"
| "assignField r (SetHints v) = r\<lparr>hints := v\<rparr>"
| "assignField r (SetRoundPhase v) = r\<lparr>roundPhase := v\<rparr>"
| "assignField r (SetRoundEndReason v) = r\<lparr>roundEndReason := v\<rparr>"
| "assignField r (SetRoundStartTime v) = r\<lparr>roundStartTime := v\<rparr>"
| "assignField r (SetGuessedCorrectly v) = r\<lparr>guessedCorrectly := v\<rparr>"
| "assignField r (SetCanvasHistory v) = r\<lparr>canvasHistory := v\<rparr>"
| "assignField r (SetDrawnPlayers v) = r\<lparr>drawnPlayers := v\<rparr>"
| "assignField r (SetSecretWord v) = r\<lparr>secretWord := v\<rparr>"

text \<open>\<open>Object.assign(room, settings)\<close>: the keys are copied one after the other.\<close>

definition objectAssign :: "ServerRoom \<Rightarrow> fieldUpdate list \<Rightarrow> ServerRoom" where
  "objectAssign r settings = foldl assignField r settings"

definition updateSettings :: "fieldUpdate list \<Rightarrow> world \<Rightarrow> world" where
  "updateSettings settings w =
     (if \<not> registered w then w else w\<lparr>room := objectAssign (room w) settings\<rparr>)"

definition resetToLobby :: "world \<Rightarrow> world" where
  "resetToLobby w =
     (if \<not> registered w then w
      else
        let w1 = clearRoomTimer w;
            w2 = w1\<lparr>room := (room w1)\<lparr>status := Lobby,
                                      currentRound := 1,
                                      currentDrawerId := None,
                                      currentWord := None,
                                      secretWord := None,
                                      roundPhase := None,
                                      drawnPlayers := [],
                                      guessedCorrectly := [],
                                      canvasHistory := [],
                                      wordsToChoose := [],
                                      players := map (\<lambda>p. p\<lparr>score := 0\<rparr>)
                                                   (players (room w1))\<rparr>\<rparr>
        in onRoomUpdate w2)"

text \<open>
  One callback of the event loop: the timer with handle \<open>h\<close> fires. A handle that is not
  live does nothing: \<open>clearInterval\<close> removed it. An interval stays live, with its counter
  decremented (\<open>countdown--\<close>, \<open>timeLeft--\<close>), until it is cleared; the delay of \<open>endRound\<close>
  fires once.
  \<open>now\<close> and \<open>rnd\<close> are the clock and the random numbers the callback may read.
\<close>

definition setAction :: "nat \<Rightarrow> timerAction \<Rightarrow> world \<Rightarrow> world" where
  "setAction h a w = w\<lparr>live := map (\<lambda>t. if fst t = h then (h, a) else t) (live w)\<rparr>"

definition fire :: "int \<Rightarrow> rand \<Rightarrow> nat \<Rightarrow> world \<Rightarrow> world" where
  "fire now rnd h w =
     (case map_of (live w) h of
        None \<Rightarrow> w
      | Some (StartCountdown countdown) \<Rightarrow>
          let countdown' = jsAdd countdown (- 1);
              w1 = onTick countdown' (setAction h (StartCountdown countdown') w)
          in if countdown' \<le> 0 then startNewRound rnd (clearRoomTimer w1) else w1
      | Some (SelectCountdown timeLeft options) \<Rightarrow>
          let timeLeft' = jsAdd timeLeft (- 1);
              w1 = onTick timeLeft' (setAction h (SelectCountdown timeLeft' options) w)
          in if timeLeft' \<le> 0
             then (case options of [] \<Rightarrow> w1 | first # _ \<Rightarrow> selectWord now first w1)
             else w1
      | Some (DrawCountdown timeLeft) \<Rightarrow>
          let timeLeft' = jsAdd timeLeft (- 1);
              w1 = onTick timeLeft' (setAction h (DrawCountdown timeLeft') w)
          in if timeLeft' \<le> 0 then endRound w1 else w1
      | Some ReviewDelay \<Rightarrow>
          let w1 = clearInterval h w
          in if status (room w1) \<noteq> Ended then startNewRound rnd w1 else w1)"

section \<open>The keys of a payload\<close>

text \<open>
  The key an entry of the payload names, and the entry that reads the same key from the
  room: \<open>readField k r\<close> is what the room \<open>r\<close> holds under \<open>k\<close>.
\<close>

datatype key =
    KId | KPlayers | KStatus | KCurrentRound | KTotalRounds | KDrawTime | KCurrentDrawerId
  | KCurrentWord | KRevealedWord | KWordsToChoose | KMaxPlayers | KHints | KRoundPhase
  | KRoundEndReason | KRoundStartTime | KGuessedCorrectly | KCanvasHistory | KDrawnPlayers
  | KSecretWord

fun keyOf :: "fieldUpdate \<Rightarrow> key" where
  "keyOf (SetId v) = KId"
| "keyOf (SetPlayers v) = KPlayers"
| "keyOf (SetStatus v) = KStatus"
| "keyOf (SetCurrentRound v) = KCurrentRound"
| "keyOf (SetTotalRounds v) = KTotalRounds"
| "keyOf (SetDrawTime v) = KDrawTime"
| "keyOf (SetCurrentDrawerId v) = KCurrentDrawerId"
| "keyOf (SetCurrentWord v) = KCurrentWord"
| "keyOf (SetRevealedWord v) = KRevealedWord"
| "keyOf (SetWordsToChoose v) = KWordsToChoose"
| "keyOf (SetMaxPlayers v) = KMaxPlayers"
| "keyOf (SetHints v) = KHints"
| "keyOf (SetRoundPhase v) = KRoundPhase"
| "keyOf (SetRoundEndReason v) = KRoundEndReason"
| "keyOf (SetRoundStartTime v) = KRoundStartTime"
| "keyOf (SetGuessedCorrectly v) = KGuessedCorrectly"
| "keyOf (SetCanvasHistory v) = KCanvasHistory"
| "keyOf (SetDrawnPlayers v) = KDrawnPlayers"
| "keyOf (SetSecretWord v) = KSecretWord"

fun readField :: "key \<Rightarrow> ServerRoom \<Rightarrow> fieldUpdate" where
  "readField KId r = SetId (rid r)"
| "readField KPlayers r = SetPlayers (players r)"
| "readField KStatus r = SetStatus (status r)"
| "readField KCurrentRound r = SetCurrentRound (currentRound r)"
| "readField KTotalRounds r = SetTotalRounds (totalRounds r)"
| "readField KDrawTime r = SetDrawTime (drawTime r)"
| "readField KCurrentDrawerId r = SetCurrentDrawerId (currentDrawerId r)"
| "readField KCurrentWord r = SetCurrentWord (currentWord r)"
| "readField KRevealedWord r = SetRevealedWord (revealedWord r)"
| "readField KWordsToChoose r = SetWordsToChoose (wordsToChoose r)"
| "readField KMaxPlayers r = SetMaxPlayers (maxPlayers r)"
| "readField KHints r = SetHints (hints r)"
| "readField KRoundPhase r = SetRoundPhase (roundPhase r)"
| "readField KRoundEndReason r = SetRoundEndReason (roundEndReason r)"
| "readField KRoundStartTime r = SetRoundStartTime (roundStartTime r)"
| "readField KGuessedCorrectly r = SetGuessedCorrectly (guessedCorrectly r)"
| "readField KCanvasHistory r = SetCanvasHistory (canvasHistory r)"
| "readField KDrawnPlayers r = SetDrawnPlayers (drawnPlayers r)"
| "readField KSecretWord r = SetSecretWord (secretWord r)"

section \<open>Reading the state\<close>

text \<open>The score of the player that \<open>players.find(p => p.id === i)\<close> returns.\<close>

definition scoreOf :: "string \<Rightarrow> Player list \<Rightarrow> int option" where
  "scoreOf i ps = map_option score (find (\<lambda>p. pid p = i) ps)"

definition playerIds :: "world \<Rightarrow> string list" where
  "playerIds w = map pid (players (room w))"

definition hostCount :: "world \<Rightarrow> nat" where
  "hostCount w = length (filter isHost (players (room w)))"

text \<open>
  \<open>drawnPlayers\<close> names players of the room only and is not longer than the player list.
\<close>

definition drawnWithin :: "world \<Rightarrow> bool" where
  "drawnWithin w =
     (set (drawnPlayers (room w)) \<subseteq> set (playerIds w)
      \<and> length (drawnPlayers (room w)) \<le> length (players (room w)))"

text \<open>Handles are unique: every live handle is below the next fresh one.\<close>

definition handlesFresh :: "world \<Rightarrow> bool" where
  "handlesFresh w = list_all (\<lambda>t. fst t < fresh w) (live w)"

text \<open>
  The messages sent between two states, and whether an event carries word options: a
  broadcast view with a non-empty \<open>wordsToChoose\<close>, or the \<open>choose_words\<close> event.
\<close>

definition carriesOptions :: "event \<Rightarrow> bool" where
  "carriesOptions ev =
     (case ev of RoomUpdated v \<Rightarrow> wordsToChoose v \<noteq> [] | ChooseWords ws \<Rightarrow> ws \<noteq> [] | _ \<Rightarrow> False)"

definition sentSince :: "world \<Rightarrow> world \<Rightarrow> message list" where
  "sentSince w w' = drop (length (outbox w)) (outbox w')"

section \<open>A game played by two connections\<close>

text \<open>
  \<open>s1\<close> creates the room, \<open>s2\<close> joins, the game starts, the countdown runs out after three
  ticks, \<open>s1\<close> is drawn as drawer and selects \<open>CAT\<close>, and \<open>s2\<close> guesses \<open>cat\<close> (with a
  trailing space).
\<close>

definition demoRand :: rand where
  "demoRand = \<lparr>drawerRand = 0, wordRand0 = 2, wordRand1 = 3, wordRand2 = 8\<rparr>"

definition demoLobby :: world where
  "demoLobby = snd (joinRoom ''bob'' ''owl'' ''s2''
                 (createRoom ''ABC123'' ''ann'' ''fox'' ''s1'' None None))"

definition demoStarting :: world where
  "demoStarting = startGame demoLobby"

definition demoSelecting :: world where
  "demoSelecting = fire 0 demoRand 0 (fire 0 demoRand 0 (fire 0 demoRand 0 demoStarting))"

definition demoDrawing :: world where
  "demoDrawing = selectWord 1000 (js ''CAT'') demoSelecting"

definition demoReview :: world where
  "demoReview = snd (processGuess asciiUpperCase ''s2'' (js ''cat '') demoDrawing)"

text \<open>
  Two states in the drawing phase in which no guess is accepted: the drawer selected the
  empty word; and the room was reset to the lobby during a review, after which the
  review delay (which \<open>resetToLobby\<close> cannot cancel) advanced the turn and a word was
  selected.
\<close>

definition demoEmptyWord :: world where
  "demoEmptyWord = selectWord 1000 [] demoSelecting"

definition demoStale :: world where
  "demoStale = selectWord 9000 (js ''DOG'') (fire 0 demoRand 3 (resetToLobby demoReview))"

text \<open>
  The state after the first correct guess of \<open>sid\<close>: \<open>score += 50\<close> for the guesser,
  \<open>score += 10\<close> for the drawer, and the guesser appended to \<open>guessedCorrectly\<close>.
\<close>

definition afterFirstCorrect :: "string \<Rightarrow> world \<Rightarrow> world" where
  "afterFirstCorrect sid w =
     w\<lparr>room := (room w)\<lparr>players :=
                 (case currentDrawerId (room w) of
                    None \<Rightarrow> addScore sid 50 (players (room w))
                  | Some d \<Rightarrow> addScore d 10 (addScore sid 50 (players (room w)))),
               guessedCorrectly := guessedCorrectly (room w) @ [sid]\<rparr>\<rparr>"

text \<open>
  The same game when \<open>s2\<close> has sent \<open>join_room\<close> twice: the room lists the connection
  twice. \<open>s1\<close> draws \<open>CAT\<close> and \<open>s2\<close> guesses it.
\<close>

definition demoTwiceDrawing :: world where
  "demoTwiceDrawing =
     selectWord 1000 (js ''CAT'')
       (fire 0 demoRand 0 (fire 0 demoRand 0 (fire 0 demoRand 0
         (startGame (snd (joinRoom ''bob'' ''owl'' ''s2'' demoLobby))))))"

definition demoTwiceGuessed :: world where
  "demoTwiceGuessed =
     snd (processGuess asciiUpperCase ''s2'' (js ''cat'') demoTwiceDrawing)"

text \<open>
  What can happen while the review delay of \<open>endRound\<close> is pending: a client sends
  \<open>start_game\<close> and the countdown runs out; or both players leave, the drawer first.
\<close>

definition demoRestarted :: world where
  "demoRestarted = startGame demoReview"

definition demoRestartedSelecting :: world where
  "demoRestartedSelecting =
     fire 0 demoRand 4 (fire 0 demoRand 4 (fire 0 demoRand 4 demoRestarted))"

definition demoDeleted :: world where
  "demoDeleted = snd (leaveRoom 0 ''s2'' (snd (leaveRoom 0 ''s1'' demoReview)))"

text \<open>
  The second turn of the demonstration game: the review delay fires and \<open>s2\<close> becomes the
  drawer. Then \<open>s2\<close> leaves.
\<close>

definition demoSecondTurn :: world where
  "demoSecondTurn = fire 0 demoRand 3 demoReview"

definition demoDrawerLeft :: world where
  "demoDrawerLeft = snd (leaveRoom 0 ''s2'' demoSecondTurn)"

text \<open>
  Two rooms in which \<open>drawnPlayers\<close> names every player: the room that lists \<open>s2\<close> twice,
  in its second turn (the drawing countdown ran out and the review delay fired); and the
  room of the second turn after a settings update has emptied its player list.
\<close>

definition demoTwiceSecondTurn :: world where
  "demoTwiceSecondTurn = fire 0 demoRand 3 (endRound demoTwiceDrawing)"

definition demoEmptied :: world where
  "demoEmptied = updateSettings [SetPlayers []] demoSecondTurn"

text \<open>
  Numbers beyond \<open>2 ^ 53\<close>, as a settings update can store them: the room of the second
  turn in round \<open>2 ^ 53\<close> of \<open>2 ^ 53\<close>, and the drawing room in which \<open>s2\<close> has \<open>2 ^ 54\<close> points.
\<close>

definition demoRoundLimit :: world where
  "demoRoundLimit =
     updateSettings [SetCurrentRound (2 ^ 53), SetTotalRounds (2 ^ 53)] demoSecondTurn"

definition demoHighScore :: world where
  "demoHighScore =
     updateSettings
       [SetPlayers [\<lparr>pid = ''s1'', name = ''ann'', score = 0, isHost = True,
                     avatar = ''fox'', socketId = ''s1''\<rparr>,
                    \<lparr>pid = ''s2'', name = ''bob'', score = 2 ^ 54, isHost = False,
                     avatar = ''owl'', socketId = ''s2''\<rparr>]]
       demoDrawing"

section \<open>Reachable states\<close>

text \<open>
  The states a room can be in: it is created, and then the handlers of socket.ts call the
  operations of the manager and the timers fire, in any order and with any arguments. A
  settings update is any payload that does not name the key \<open>players\<close>.
\<close>

inductive reachable :: "world \<Rightarrow> bool" where
  created: "reachable (createRoom roomId username avatar' sid drawTime' rounds)"
| joined: "reachable w \<Longrightarrow> reachable (snd (joinRoom username avatar' sid w))"
| left: "reachable w \<Longrightarrow> reachable (snd (leaveRoom hostRand sid w))"
| updated: "reachable w \<Longrightarrow> KPlayers \<notin> keyOf ` set settings
              \<Longrightarrow> reachable (updateSettings settings w)"
| started: "reachable w \<Longrightarrow> reachable (startGame w)"
| reset: "reachable w \<Longrightarrow> reachable (resetToLobby w)"
| selected: "reachable w \<Longrightarrow> reachable (selectWord now word w)"
| guessed: "reachable w \<Longrightarrow> reachable (snd (processGuess toUpperCase sid guess w))"
| fired: "reachable w \<Longrightarrow> reachable (fire now rnd h w)"

text \<open>
  The states in which \<open>drawnPlayers\<close> is up to date: those reached from the creation of the
  room, or from any turn advance of an existing room, by the operations and the timers,
  without a departure (\<open>leaveRoom\<close>) and without a settings update that names \<open>players\<close> or
  \<open>drawnPlayers\<close>.
\<close>

inductive undisturbed :: "world \<Rightarrow> bool" where
  u_created: "undisturbed (createRoom roomId username avatar' sid drawTime' rounds)"
| u_advanced: "registered w \<Longrightarrow> undisturbed (startNewRound rnd w)"
| u_joined: "undisturbed w \<Longrightarrow> undisturbed (snd (joinRoom username avatar' sid w))"
| u_updated: "undisturbed w \<Longrightarrow> KPlayers \<notin> keyOf ` set settings
                \<Longrightarrow> KDrawnPlayers \<notin> keyOf ` set settings
                \<Longrightarrow> undisturbed (updateSettings settings w)"
| u_started: "undisturbed w \<Longrightarrow> undisturbed (startGame w)"
| u_reset: "undisturbed w \<Longrightarrow> undisturbed (resetToLobby w)"
| u_selected: "undisturbed w \<Longrightarrow> undisturbed (selectWord now word w)"
| u_guessed: "undisturbed w \<Longrightarrow> undisturbed (snd (processGuess toUpperCase sid guess w))"
| u_fired: "undisturbed w \<Longrightarrow> undisturbed (fire now rnd h w)"

text \<open>
  The invariant of the host flag: a room that exists has exactly one host, and a deleted
  room has no players.
\<close>

definition hostInv :: "world \<Rightarrow> bool" where
  "hostInv w = ((registered w \<longrightarrow> hostCount w = 1) \<and> (\<not> registered w \<longrightarrow> players (room w) = []))"

text \<open>A room with two hosts, as a settings update that names \<open>players\<close> leaves it.\<close>

definition demoTwoHosts :: world where
  "demoTwoHosts =
     updateSettings
       [SetPlayers [\<lparr>pid = ''s1'', name = ''ann'', score = 0, isHost = True,
                     avatar = ''fox'', socketId = ''s1''\<rparr>,
                    \<lparr>pid = ''s2'', name = ''bob'', score = 0, isHost = True,
                     avatar = ''owl'', socketId = ''s2''\<rparr>]]
       demoLobby"

section \<open>Exact sums\<close>

text \<open>A sum within \<open>2 ^ 53\<close> of zero is exact.\<close>

lemma roundDouble_limit:
  "roundDouble (2 ^ 53) = 2 ^ 53"
  "roundDouble (- (2 ^ 53)) = - (2 ^ 53)"
  by code_simp+

lemma jsAdd_exact: "\<bar>a + b\<bar> \<le> 2 ^ 53 \<Longrightarrow> jsAdd a b = a + b"
proof -
  assume "\<bar>a + b\<bar> \<le> 2 ^ 53"
  then consider "\<bar>a + b\<bar> < 2 ^ 53" | "a + b = 2 ^ 53" | "a + b = - (2 ^ 53)"
    by linarith
  then show ?thesis
  proof cases
    case 1
    then show ?thesis
      by (simp add: jsAdd_def roundDouble_def)
  next
    case 2
    then show ?thesis
      by (simp only: jsAdd_def roundDouble_limit)
  next
    case 3
    then show ?thesis
      by (simp only: jsAdd_def roundDouble_limit)
  qed
qed

lemma jsAdd_ticks [simp]:
  "jsAdd 3 (- 1) = 2" "jsAdd 2 (- 1) = 1" "jsAdd 1 (- 1) = 0"
  by (simp_all add: jsAdd_exact)

section \<open>Frame lemmas for the building blocks\<close>

lemma clearRoomTimer_frame [simp]:
  "room (clearRoomTimer w) = room w"
  "registered (clearRoomTimer w) = registered w"
  "fresh (clearRoomTimer w) = fresh w"
  "outbox (clearRoomTimer w) = outbox w"
  "roomKey (clearRoomTimer w) = roomKey w"
  by (simp_all add: clearRoomTimer_def clearInterval_def split: option.split)

lemma onTick_frame [simp]:
  "room (onTick t w) = room w"
  "registered (onTick t w) = registered w"
  "fresh (onTick t w) = fresh w"
  "live (onTick t w) = live w"
  "roomKey (onTick t w) = roomKey w"
  by (simp_all add: onTick_def)

lemma onRoomUpdate_frame [simp]:
  "room (onRoomUpdate w) = room w"
  "registered (onRoomUpdate w) = registered w"
  "fresh (onRoomUpdate w) = fresh w"
  "live (onRoomUpdate w) = live w"
  "roomKey (onRoomUpdate w) = roomKey w"
  by (simp_all add: onRoomUpdate_def Let_def split: option.split)

lemma setTimeout_frame [simp]:
  "room (setTimeout a w) = room w"
  "registered (setTimeout a w) = registered w"
  "live (setTimeout a w) = live w @ [(fresh w, a)]"
  "fresh (setTimeout a w) = Suc (fresh w)"
  "outbox (setTimeout a w) = outbox w"
  "roomKey (setTimeout a w) = roomKey w"
  by (simp_all add: setTimeout_def)

lemma setRoomInterval_frame [simp]:
  "room (setRoomInterval a w) = (room w)\<lparr>timer := Some (fresh w)\<rparr>"
  "registered (setRoomInterval a w) = registered w"
  "live (setRoomInterval a w) = live w @ [(fresh w, a)]"
  "fresh (setRoomInterval a w) = Suc (fresh w)"
  "outbox (setRoomInterval a w) = outbox w"
  "roomKey (setRoomInterval a w) = roomKey w"
  by (simp_all add: setRoomInterval_def)

lemma live_clearRoomTimer:
  "live (clearRoomTimer w) =
     (case timer (room w) of None \<Rightarrow> live w
      | Some h \<Rightarrow> filter (\<lambda>t. fst t \<noteq> h) (live w))"
  by (simp add: clearRoomTimer_def clearInterval_def split: option.split)

lemma endRound_room:
  "registered w \<Longrightarrow>
     room (endRound w) = (room w)\<lparr>currentWord := secretWord (room w), roundPhase := Some Review\<rparr>"
  by (simp add: endRound_def Let_def)

lemma endRound_live:
  "registered w \<Longrightarrow> live (endRound w) = live (clearRoomTimer w) @ [(fresh w, ReviewDelay)]"
  by (simp add: endRound_def Let_def)

lemma endRound_registered [simp]: "registered (endRound w) = registered w"
  by (simp add: endRound_def Let_def)

lemma endRound_players [simp]: "players (room (endRound w)) = players (room w)"
  by (simp add: endRound_def Let_def)

lemma endRound_fields [simp]:
  "guessedCorrectly (room (endRound w)) = guessedCorrectly (room w)"
  "drawnPlayers (room (endRound w)) = drawnPlayers (room w)"
  "status (room (endRound w)) = status (room w)"
  "secretWord (room (endRound w)) = secretWord (room w)"
  "currentDrawerId (room (endRound w)) = currentDrawerId (room w)"
  "currentRound (room (endRound w)) = currentRound (room w)"
  "totalRounds (room (endRound w)) = totalRounds (room w)"
  by (simp_all add: endRound_def Let_def)

lemma setAction_frame [simp]:
  "room (setAction h a w) = room w" "registered (setAction h a w) = registered w"
  by (simp_all add: setAction_def)

lemma clearInterval_frame [simp]:
  "room (clearInterval h w) = room w" "registered (clearInterval h w) = registered w"
  by (simp_all add: clearInterval_def)

section \<open>Turn advance\<close>

lemma cleanDrawn_fields [simp]:
  "players (cleanDrawn r) = players r"
  "currentRound (cleanDrawn r) = currentRound r"
  "totalRounds (cleanDrawn r) = totalRounds r"
  "status (cleanDrawn r) = status r"
  "set (drawnPlayers (cleanDrawn r)) \<subseteq> set (map pid (players r))"
  by (auto simp: cleanDrawn_def)

lemma nextRound_fields [simp]:
  "players (nextRound r) = players r"
  "totalRounds (nextRound r) = totalRounds r"
  "status (nextRound r) = status r"
  "currentRound (nextRound r)
     = (if everyoneDrew r then jsAdd (currentRound r) 1 else currentRound r)"
  "drawnPlayers (nextRound r) = (if everyoneDrew r then [] else drawnPlayers r)"
  by (simp_all add: nextRound_def)

lemma resetTurn_fields [simp]:
  "players (resetTurn r) = players r"
  "totalRounds (resetTurn r) = totalRounds r"
  "status (resetTurn r) = status r"
  "currentRound (resetTurn r) = currentRound r"
  "drawnPlayers (resetTurn r) = drawnPlayers r"
  "guessedCorrectly (resetTurn r) = []"
  by (simp_all add: resetTurn_def)

lemma picked_drawer:
  assumes "availableDrawers r \<noteq> []"
  shows "availableDrawers r ! (k mod length (availableDrawers r)) \<in> set (players r)"
    and "pid (availableDrawers r ! (k mod length (availableDrawers r))) \<notin> set (drawnPlayers r)"
proof -
  from assms have "availableDrawers r ! (k mod length (availableDrawers r))
                     \<in> set (availableDrawers r)"
    by simp
  then show "availableDrawers r ! (k mod length (availableDrawers r)) \<in> set (players r)"
    and "pid (availableDrawers r ! (k mod length (availableDrawers r))) \<notin> set (drawnPlayers r)"
    by (simp_all add: availableDrawers_def)
qed

lemma startNewRound_unregistered: "\<not> registered w \<Longrightarrow> startNewRound rnd w = w"
  by (simp add: startNewRound.simps)

lemma startNewRound_ended:
  assumes "registered w" and "everyoneDrew (cleanDrawn (room w))"
    and "totalRounds (room w) < jsAdd (currentRound (room w)) 1"
  shows "startNewRound rnd w =
           onRoomUpdate ((clearRoomTimer w)\<lparr>room := (nextRound (cleanDrawn (room w)))
              \<lparr>status := Ended, roundPhase := None, currentDrawerId := None\<rparr>\<rparr>)"
  using assms
  by (subst startNewRound.simps) (simp add: Let_def nextRound_def cleanDrawn_def)

lemma startNewRound_pick:
  assumes "registered w"
    and "\<not> (everyoneDrew (cleanDrawn (room w))
            \<and> totalRounds (room w) < jsAdd (currentRound (room w)) 1)"
    and "availableDrawers (resetTurn (nextRound (cleanDrawn (room w)))) \<noteq> []"
  shows "startNewRound rnd w =
           (let r4 = resetTurn (nextRound (cleanDrawn (room w)));
                drawer = availableDrawers r4 ! (drawerRand rnd mod length (availableDrawers r4));
                r5 = r4\<lparr>currentDrawerId := Some (pid drawer),
                        drawnPlayers := drawnPlayers r4 @ [pid drawer],
                        wordsToChoose := pickOptions rnd,
                        roundPhase := Some Selecting\<rparr>
            in setRoomInterval (SelectCountdown 5 (pickOptions rnd))
                 (onTick 5 (onRoomUpdate ((clearRoomTimer w)\<lparr>room := r5\<rparr>))))"
  using assms
  by (subst startNewRound.simps) (auto simp: Let_def nextRound_def cleanDrawn_def)

lemma startNewRound_stuck:
  assumes "registered w"
    and "\<not> (everyoneDrew (cleanDrawn (room w))
            \<and> totalRounds (room w) < jsAdd (currentRound (room w)) 1)"
    and "availableDrawers (resetTurn (nextRound (cleanDrawn (room w)))) = []"
    and "players (room w) = []
         \<and> currentRound (nextRound (cleanDrawn (room w))) \<le> currentRound (room w)"
  shows "startNewRound rnd w =
           (clearRoomTimer w)\<lparr>room :=
              (resetTurn (nextRound (cleanDrawn (room w))))\<lparr>drawnPlayers := []\<rparr>,
              crashed := True\<rparr>"
  using assms
  by (subst startNewRound.simps) (auto simp: Let_def nextRound_def cleanDrawn_def)

lemma startNewRound_fallback:
  assumes "registered w"
    and "\<not> (everyoneDrew (cleanDrawn (room w))
            \<and> totalRounds (room w) < jsAdd (currentRound (room w)) 1)"
    and "availableDrawers (resetTurn (nextRound (cleanDrawn (room w)))) = []"
    and "\<not> (players (room w) = []
            \<and> currentRound (nextRound (cleanDrawn (room w))) \<le> currentRound (room w))"
  shows "startNewRound rnd w =
           startNewRound rnd
             ((clearRoomTimer w)\<lparr>room :=
                (resetTurn (nextRound (cleanDrawn (room w))))\<lparr>drawnPlayers := []\<rparr>\<rparr>)"
  using assms
  by (subst startNewRound.simps) (auto simp: Let_def nextRound_def cleanDrawn_def)

text \<open>
  A property that the fallback step preserves and that holds after the three final
  branches holds after every turn advance.
\<close>

lemma startNewRound_cases [consumes 1, case_names ended pick stuck fallback]:
  fixes P :: "rand \<Rightarrow> world \<Rightarrow> bool"
  assumes "registered w"
    and ended: "\<And>rnd w. registered w \<Longrightarrow> everyoneDrew (cleanDrawn (room w)) \<Longrightarrow>
           totalRounds (room w) < jsAdd (currentRound (room w)) 1 \<Longrightarrow> P rnd w"
    and pick: "\<And>rnd w. registered w \<Longrightarrow>
           \<not> (everyoneDrew (cleanDrawn (room w))
               \<and> totalRounds (room w) < jsAdd (currentRound (room w)) 1) \<Longrightarrow>
           availableDrawers (resetTurn (nextRound (cleanDrawn (room w)))) \<noteq> [] \<Longrightarrow> P rnd w"
    and stuck: "\<And>rnd w. registered w \<Longrightarrow>
           \<not> (everyoneDrew (cleanDrawn (room w))
               \<and> totalRounds (room w) < jsAdd (currentRound (room w)) 1) \<Longrightarrow>
           availableDrawers (resetTurn (nextRound (cleanDrawn (room w)))) = [] \<Longrightarrow>
           players (room w) = []
             \<and> currentRound (nextRound (cleanDrawn (room w))) \<le> currentRound (room w) \<Longrightarrow>
           P rnd w"
    and fallback: "\<And>rnd w. registered w \<Longrightarrow>
           \<not> (everyoneDrew (cleanDrawn (room w))
               \<and> totalRounds (room w) < jsAdd (currentRound (room w)) 1) \<Longrightarrow>
           availableDrawers (resetTurn (nextRound (cleanDrawn (room w)))) = [] \<Longrightarrow>
           \<not> (players (room w) = []
               \<and> currentRound (nextRound (cleanDrawn (room w))) \<le> currentRound (room w)) \<Longrightarrow>
           P rnd ((clearRoomTimer w)\<lparr>room :=
                    (resetTurn (nextRound (cleanDrawn (room w))))\<lparr>drawnPlayers := []\<rparr>\<rparr>) \<Longrightarrow>
           P rnd w"
  shows "P rnd w"
  using assms(1)
proof (induction rnd w rule: startNewRound.induct)
  case (1 rnd w)
  show ?case
  proof (cases "everyoneDrew (cleanDrawn (room w))
                  \<and> totalRounds (room w) < jsAdd (currentRound (room w)) 1")
    case True
    with 1(2) show ?thesis
      by (auto intro: ended)
  next
    case notEnded: False
    show ?thesis
    proof (cases "availableDrawers (resetTurn (nextRound (cleanDrawn (room w)))) = []")
      case False
      with 1(2) notEnded show ?thesis
        by (auto intro: pick)
    next
      case none: True
      show ?thesis
      proof (cases "players (room w) = []
                      \<and> currentRound (nextRound (cleanDrawn (room w))) \<le> currentRound (room w)")
        case True
        with 1(2) notEnded none show ?thesis
          by (auto intro: stuck)
      next
        case False
        have "P rnd ((clearRoomTimer w)\<lparr>room :=
                      (resetTurn (nextRound (cleanDrawn (room w))))\<lparr>drawnPlayers := []\<rparr>\<rparr>)"
          using 1(2) notEnded none False
          by (intro 1(1)) (auto simp: nextRound_def cleanDrawn_def split: if_splits)
        with 1(2) notEnded none False show ?thesis
          by (auto intro: fallback)
      qed
    qed
  qed
qed

section \<open>Handles stay unique\<close>

text \<open>
  Every state that the operations produce from a new room satisfies \<open>handlesFresh\<close>: a
  timer is started under the next fresh handle, and no operation invents a handle.
\<close>

lemma handlesFresh_room [simp]: "handlesFresh (w\<lparr>room := r\<rparr>) = handlesFresh w"
  by (simp add: handlesFresh_def)

lemma handlesFresh_registered [simp]: "handlesFresh (w\<lparr>registered := b\<rparr>) = handlesFresh w"
  by (simp add: handlesFresh_def)

lemma handlesFresh_crashed [simp]: "handlesFresh (w\<lparr>crashed := b\<rparr>) = handlesFresh w"
  by (simp add: handlesFresh_def)

lemma handlesFresh_notify [simp]:
  "handlesFresh (onTick t w) = handlesFresh w"
  "handlesFresh (onRoomUpdate w) = handlesFresh w"
  by (simp_all add: handlesFresh_def)

lemma handlesFresh_clear:
  "handlesFresh w \<Longrightarrow> handlesFresh (clearInterval h w)"
  "handlesFresh w \<Longrightarrow> handlesFresh (clearRoomTimer w)"
  by (auto simp: handlesFresh_def clearInterval_def clearRoomTimer_def list_all_iff
           split: option.split)

lemma handlesFresh_schedule:
  "handlesFresh w \<Longrightarrow> handlesFresh (setRoomInterval a w)"
  "handlesFresh w \<Longrightarrow> handlesFresh (setTimeout a w)"
  "handlesFresh w \<Longrightarrow> handlesFresh (setAction h a w)"
  by (auto simp: handlesFresh_def setRoomInterval_def setTimeout_def setAction_def list_all_iff)

lemma handlesFresh_endRound: "handlesFresh w \<Longrightarrow> handlesFresh (endRound w)"
  by (simp add: endRound_def Let_def handlesFresh_clear handlesFresh_schedule)

lemma handlesFresh_selectWord: "handlesFresh w \<Longrightarrow> handlesFresh (selectWord now word w)"
  by (simp add: selectWord_def Let_def handlesFresh_clear handlesFresh_schedule)

lemma handlesFresh_startGame: "handlesFresh w \<Longrightarrow> handlesFresh (startGame w)"
  by (simp add: startGame_def Let_def handlesFresh_clear handlesFresh_schedule)

lemma handlesFresh_startNewRound:
  assumes "handlesFresh w"
  shows "handlesFresh (startNewRound rnd w)"
proof (cases "registered w")
  case False
  with assms show ?thesis by (simp add: startNewRound_unregistered)
next
  case True
  then show ?thesis
    using assms
  proof (induction rule: startNewRound_cases)
    case (ended rnd w)
    then show ?case
      by (simp add: startNewRound_ended handlesFresh_clear)
  next
    case (pick rnd w)
    then show ?case
      by (simp add: startNewRound_pick Let_def handlesFresh_clear handlesFresh_schedule)
  next
    case (stuck rnd w)
    then show ?case
      by (simp add: startNewRound_stuck handlesFresh_clear)
  next
    case (fallback rnd w)
    then show ?case
      by (simp add: startNewRound_fallback handlesFresh_clear)
  qed
qed

lemma handlesFresh_fire: "handlesFresh w \<Longrightarrow> handlesFresh (fire now rnd h w)"
  by (simp add: fire_def Let_def handlesFresh_clear handlesFresh_schedule
                handlesFresh_startNewRound handlesFresh_selectWord handlesFresh_endRound
           split: option.split timerAction.split list.split)

lemma handlesFresh_createRoom: "handlesFresh (createRoom roomId username av sid dt rounds)"
  by (simp add: createRoom_def handlesFresh_def)

lemma handlesFresh_commands:
  "handlesFresh w \<Longrightarrow> handlesFresh (snd (joinRoom username av sid w))"
  "handlesFresh w \<Longrightarrow> handlesFresh (snd (leaveRoom hostRand sid w))"
  "handlesFresh w \<Longrightarrow> handlesFresh (updateSettings settings w)"
  "handlesFresh w \<Longrightarrow> handlesFresh (resetToLobby w)"
  "handlesFresh w \<Longrightarrow> handlesFresh (snd (processGuess toUpperCase sid guess w))"
  by (simp_all add: joinRoom_def leaveRoom_def updateSettings_def resetToLobby_def
                    processGuess_def Let_def handlesFresh_clear handlesFresh_endRound
               split: option.split)

section \<open>Copying the keys of a payload\<close>

lemma readField_assign_same: "readField (keyOf u) (assignField r u) = u"
  by (cases u) simp_all

lemma readField_assign_other: "keyOf u \<noteq> k \<Longrightarrow> readField k (assignField r u) = readField k r"
  by (cases u; cases k; simp)

lemma timer_assignField: "timer (assignField r u) = timer r"
  by (cases u) simp_all

lemma timer_objectAssign: "timer (objectAssign r us) = timer r"
  unfolding objectAssign_def by (induction us arbitrary: r) (simp_all add: timer_assignField)

lemma readField_objectAssign_other:
  "k \<notin> keyOf ` set us \<Longrightarrow> readField k (objectAssign r us) = readField k r"
  unfolding objectAssign_def
proof (induction us arbitrary: r)
  case Nil
  then show ?case by simp
next
  case (Cons u us)
  then have "readField k (foldl assignField (assignField r u) us) = readField k (assignField r u)"
    by simp
  also have "\<dots> = readField k r"
    using Cons.prems by (auto intro: readField_assign_other)
  finally show ?case by simp
qed

lemma readField_objectAssign_key:
  "distinct (map keyOf us) \<Longrightarrow> u \<in> set us \<Longrightarrow> readField (keyOf u) (objectAssign r us) = u"
proof (induction us arbitrary: r)
  case Nil
  then show ?case by simp
next
  case (Cons v us)
  show ?case
  proof (cases "u = v")
    case True
    with Cons.prems have "keyOf u \<notin> keyOf ` set us" by auto
    then have "readField (keyOf u) (objectAssign (assignField r v) us) = readField (keyOf u) (assignField r v)"
      by (rule readField_objectAssign_other)
    with True show ?thesis by (simp add: objectAssign_def readField_assign_same)
  next
    case False
    with Cons.prems have "u \<in> set us" "distinct (map keyOf us)" by auto
    then have "readField (keyOf u) (objectAssign (assignField r v) us) = u"
      using Cons.IH by blast
    then show ?thesis by (simp add: objectAssign_def)
  qed
qed

section \<open>Word selection and masking\<close>

lemma length_maskWord:
  "length (maskWord word) = length word + length (filter (\<lambda>c. \<not> isWhitespace c) word)"
  by (induction word) (simp_all add: maskWord_def js_def)

lemma selectWord_room:
  "registered w \<Longrightarrow>
     room (selectWord now word w) =
       (room w)\<lparr>secretWord := Some word, currentWord := Some (maskWord word),
                roundPhase := Some Drawing, wordsToChoose := [],
                roundStartTime := Some now, timer := Some (fresh w)\<rparr>"
  by (simp add: selectWord_def Let_def)

lemma maskWord_CAT: "maskWord (js ''CAT'') = js ''_ _ _ ''"
  by code_simp

text \<open>
  C1 (as the code has it). Selecting a word stores it as the secret word and derives the
  public word by replacing every code unit that is not white space with the two code
  units underscore and space, white space being kept: the masked word is longer than the
  secret word by the number of its code units that are not white space, and selecting
  \<open>CAT\<close> gives \<open>_ _ _ \<close> with a trailing space.
\<close>

theorem C1_selectWord_masks:
  assumes "registered w"
  shows "secretWord (room (selectWord now word w)) = Some word
       \<and> currentWord (room (selectWord now word w))
           = Some (concat (map (\<lambda>c. if isWhitespace c then [c] else js ''_ '') word))
       \<and> length (the (currentWord (room (selectWord now word w))))
           = length word + length (filter (\<lambda>c. \<not> isWhitespace c) word)
       \<and> currentWord (room (selectWord now (js ''CAT'') w)) = Some (js ''_ _ _ '')"
  using assms
  by (simp add: selectWord_room length_maskWord maskWord_CAT)
     (simp add: maskWord_def)

text \<open>
  The words \<open>ICE CREAM\<close>, and \<open>A\<close>, no-break space, \<open>B\<close>: the space and the no-break space
  are kept.
\<close>

theorem C1_selectWord_masks_witness:
  "registered demoSelecting
   \<and> secretWord (room (selectWord 1000 (js ''ICE CREAM'') demoSelecting))
       = Some (js ''ICE CREAM'')
   \<and> currentWord (room (selectWord 1000 (js ''ICE CREAM'') demoSelecting))
       = Some (js ''_ _ _  _ _ _ _ _ '')
   \<and> currentWord (room (selectWord 1000 [0x41, 0xA0, 0x42] demoSelecting))
       = Some [0x5F, 0x20, 0xA0, 0x5F, 0x20]"
proof -
  have h: "registered demoSelecting"
    by code_simp
  have m: "concat (map (\<lambda>c. if isWhitespace c then [c] else js ''_ '') (js ''ICE CREAM''))
             = js ''_ _ _  _ _ _ _ _ ''"
    "concat (map (\<lambda>c. if isWhitespace c then [c] else js ''_ '') [0x41, 0xA0, 0x42])
       = [0x5F, 0x20, 0xA0, 0x5F, 0x20]"
    by code_simp+
  from C1_selectWord_masks [OF h, of 1000 "js ''ICE CREAM''"]
  have "secretWord (room (selectWord 1000 (js ''ICE CREAM'') demoSelecting))
          = Some (js ''ICE CREAM'')"
    "currentWord (room (selectWord 1000 (js ''ICE CREAM'') demoSelecting))
       = Some (js ''_ _ _  _ _ _ _ _ '')"
    by (simp_all only: m)
  moreover from C1_selectWord_masks [OF h, of 1000 "[0x41, 0xA0, 0x42]"]
  have "currentWord (room (selectWord 1000 [0x41, 0xA0, 0x42] demoSelecting))
          = Some [0x5F, 0x20, 0xA0, 0x5F, 0x20]"
    by (simp only: m)
  ultimately show ?thesis
    using h by simp
qed

text \<open>
  C1 (as the specification states it) fails: after \<open>CAT\<close> is selected the public word is
  not \<open>___\<close>, and it does not have the length of the secret word.
\<close>

theorem C1_mask_counterexample:
  "currentWord (room (selectWord 1000 (js ''CAT'') demoSelecting)) \<noteq> Some (js ''___'')
   \<and> length (the (currentWord (room (selectWord 1000 (js ''CAT'') demoSelecting))))
       \<noteq> length (js ''CAT'')"
  by code_simp

section \<open>Guesses\<close>

lemma scoreOf_addScore:
  "scoreOf i (addScore j n ps) =
     (if i = j then map_option (\<lambda>x. jsAdd x n) (scoreOf i ps) else scoreOf i ps)"
  by (induction ps) (auto simp: scoreOf_def)

lemma map_pid_addScore [simp]: "map pid (addScore j n ps) = map pid ps"
  by (induction ps) auto

lemma length_addScore [simp]: "length (addScore j n ps) = length ps"
  by (induction ps) auto

lemma map_isHost_addScore [simp]: "map isHost (addScore j n ps) = map isHost ps"
  by (induction ps) auto

lemma filter_pid_addScore [simp]:
  "length (filter (\<lambda>p. pid p \<noteq> d) (addScore j n ps)) = length (filter (\<lambda>p. pid p \<noteq> d) ps)"
  "length (filter (\<lambda>p. Some (pid p) \<noteq> c) (addScore j n ps))
     = length (filter (\<lambda>p. Some (pid p) \<noteq> c) ps)"
  by (induction ps) auto

lemma sum_score_addScore:
  "sum_list (map score (addScore j n ps)) =
     sum_list (map score ps)
     + (case scoreOf j ps of None \<Rightarrow> 0 | Some x \<Rightarrow> jsAdd x n - x)"
  by (induction ps) (auto simp: scoreOf_def)

lemma scoreOf_member: "i \<in> set (map pid ps) \<Longrightarrow> scoreOf i ps \<noteq> None"
  by (induction ps) (auto simp: scoreOf_def)

lemma scoreOf_absent: "i \<notin> set (map pid ps) \<Longrightarrow> scoreOf i ps = None"
  by (induction ps) (auto simp: scoreOf_def)

lemma afterFirstCorrect_fields [simp]:
  "registered (afterFirstCorrect sid w) = registered w"
  "guessedCorrectly (room (afterFirstCorrect sid w)) = guessedCorrectly (room w) @ [sid]"
  "map pid (players (room (afterFirstCorrect sid w))) = map pid (players (room w))"
  "currentDrawerId (room (afterFirstCorrect sid w)) = currentDrawerId (room w)"
  "secretWord (room (afterFirstCorrect sid w)) = secretWord (room w)"
  "timer (room (afterFirstCorrect sid w)) = timer (room w)"
  "live (afterFirstCorrect sid w) = live w"
  "fresh (afterFirstCorrect sid w) = fresh w"
  by (simp_all add: afterFirstCorrect_def split: option.split)

lemma scoreOf_afterFirstCorrect:
  assumes "currentDrawerId (room w) \<noteq> Some sid"
  shows "scoreOf i (players (room (afterFirstCorrect sid w))) =
           (if i = sid then map_option (\<lambda>x. jsAdd x 50) (scoreOf i (players (room w)))
            else if currentDrawerId (room w) = Some i
                 then map_option (\<lambda>x. jsAdd x 10) (scoreOf i (players (room w)))
                 else scoreOf i (players (room w)))"
  using assms by (auto simp: afterFirstCorrect_def scoreOf_addScore split: option.split)

lemma sum_score_afterFirstCorrect:
  assumes "currentDrawerId (room w) \<noteq> Some sid"
  shows "sum_list (map score (players (room (afterFirstCorrect sid w)))) =
           sum_list (map score (players (room w)))
           + (case scoreOf sid (players (room w)) of None \<Rightarrow> 0 | Some x \<Rightarrow> jsAdd x 50 - x)
           + (case currentDrawerId (room w) of
                None \<Rightarrow> 0
              | Some d \<Rightarrow>
                  (case scoreOf d (players (room w)) of None \<Rightarrow> 0 | Some y \<Rightarrow> jsAdd y 10 - y))"
  using assms
  by (auto simp: afterFirstCorrect_def sum_score_addScore scoreOf_addScore
           split: option.split)

text \<open>Within the range of exact sums the scores grow by 50 and 10 in total.\<close>

lemma sum_score_exact:
  assumes "currentDrawerId (room w) \<noteq> Some sid" and "sid \<in> set (playerIds w)"
    and "\<forall>x. scoreOf sid (players (room w)) = Some x \<longrightarrow> \<bar>x + 50\<bar> \<le> 2 ^ 53"
    and "\<forall>d y. currentDrawerId (room w) = Some d \<and> scoreOf d (players (room w)) = Some y
           \<longrightarrow> \<bar>y + 10\<bar> \<le> 2 ^ 53"
  shows "sum_list (map score (players (room (afterFirstCorrect sid w)))) =
           sum_list (map score (players (room w))) + 50
           + (case currentDrawerId (room w) of
                None \<Rightarrow> 0
              | Some d \<Rightarrow> if d \<in> set (playerIds w) then 10 else 0)"
proof -
  from assms(2) obtain x where x: "scoreOf sid (players (room w)) = Some x"
    using scoreOf_member [of sid "players (room w)"] by (auto simp: playerIds_def)
  with assms(3) have "jsAdd x 50 = x + 50"
    by (simp add: jsAdd_exact)
  with x have guesser:
    "(case scoreOf sid (players (room w)) of None \<Rightarrow> 0 | Some x \<Rightarrow> jsAdd x 50 - x) = 50"
    by simp
  have drawer:
    "(case currentDrawerId (room w) of
        None \<Rightarrow> 0
      | Some d \<Rightarrow>
          (case scoreOf d (players (room w)) of None \<Rightarrow> 0 | Some y \<Rightarrow> jsAdd y 10 - y))
     = (case currentDrawerId (room w) of
          None \<Rightarrow> 0
        | Some d \<Rightarrow> if d \<in> set (playerIds w) then 10 else 0)"
  proof (cases "currentDrawerId (room w)")
    case None
    then show ?thesis by simp
  next
    case (Some d)
    show ?thesis
    proof (cases "d \<in> set (playerIds w)")
      case True
      then obtain y where y: "scoreOf d (players (room w)) = Some y"
        using scoreOf_member [of d "players (room w)"] by (auto simp: playerIds_def)
      with assms(4) Some have "jsAdd y 10 = y + 10"
        by (simp add: jsAdd_exact)
      with Some True y show ?thesis by simp
    next
      case False
      then have "scoreOf d (players (room w)) = None"
        by (simp add: scoreOf_absent playerIds_def)
      with Some False show ?thesis by simp
    qed
  qed
  show ?thesis
    by (simp only: sum_score_afterFirstCorrect [OF assms(1)] guesser drawer)
qed

lemma processGuess_repeat:
  "sid \<in> set (guessedCorrectly (room w)) \<Longrightarrow> snd (processGuess toUpperCase sid guess w) = w"
  by (simp add: processGuess_def Let_def)

lemma processGuess_first:
  assumes "registered w" "status (room w) = Playing" "roundPhase (room w) = Some Drawing"
    and "secretWord (room w) = Some secret" "secret \<noteq> []"
    and "currentDrawerId (room w) \<noteq> Some sid"
    and "toUpperCase (trim guess) = toUpperCase secret"
    and "sid \<notin> set (guessedCorrectly (room w))"
  shows "processGuess toUpperCase sid guess w =
           (\<lparr>isCorrect = True, awarded = Some 50\<rparr>,
            if length (filter (\<lambda>p. Some (pid p) \<noteq> currentDrawerId (room w)) (players (room w)))
                 \<le> Suc (length (guessedCorrectly (room w)))
            then endRound (afterFirstCorrect sid w) else afterFirstCorrect sid w)"
  using assms
  by (auto simp: processGuess_def Let_def truthy_def afterFirstCorrect_def
           split: option.splits)

text \<open>
  C2 (as the code has it). In a room whose status is \<open>playing\<close>, whose round phase is
  \<open>drawing\<close> and whose secret word is not empty, for a player who is not the drawer:
  a guess is reported correct exactly when its trimmed form, converted by \<open>toUpperCase\<close>,
  equals the secret word converted by \<open>toUpperCase\<close>; the first correct guess performs
  \<open>score += 50\<close> on the guesser and \<open>score += 10\<close> on the drawer, which adds exactly 50 and
  10 as long as the sums stay within \<open>2 ^ 53\<close> of zero, changes no other score, appends the
  guesser to \<open>guessedCorrectly\<close> and reports 50 points; a correct guess of a player already
  in \<open>guessedCorrectly\<close> is reported correct and changes nothing; and after a correct
  guess no further guess of that player changes the state.
\<close>

theorem C2_guess_matching_and_scoring:
  assumes "registered w" and "status (room w) = Playing"
    and "roundPhase (room w) = Some Drawing"
    and "secretWord (room w) = Some secret" and "secret \<noteq> []"
    and "currentDrawerId (room w) \<noteq> Some sid" and "sid \<in> set (playerIds w)"
  shows "(isCorrect (fst (processGuess toUpperCase sid guess w))
            \<longleftrightarrow> toUpperCase (trim guess) = toUpperCase secret)
       \<and> (toUpperCase (trim guess) = toUpperCase secret
            \<and> sid \<notin> set (guessedCorrectly (room w)) \<longrightarrow>
              scoreOf sid (players (room w)) \<noteq> None
            \<and> scoreOf sid (players (room (snd (processGuess toUpperCase sid guess w))))
                = map_option (\<lambda>x. jsAdd x 50) (scoreOf sid (players (room w)))
            \<and> (\<forall>d. currentDrawerId (room w) = Some d \<longrightarrow>
                  scoreOf d (players (room (snd (processGuess toUpperCase sid guess w))))
                    = map_option (\<lambda>y. jsAdd y 10) (scoreOf d (players (room w))))
            \<and> (\<forall>i. i \<noteq> sid \<and> currentDrawerId (room w) \<noteq> Some i \<longrightarrow>
                  scoreOf i (players (room (snd (processGuess toUpperCase sid guess w))))
                    = scoreOf i (players (room w)))
            \<and> (\<forall>x. scoreOf sid (players (room w)) = Some x \<and> \<bar>x + 50\<bar> \<le> 2 ^ 53 \<longrightarrow>
                  scoreOf sid (players (room (snd (processGuess toUpperCase sid guess w))))
                    = Some (x + 50))
            \<and> (\<forall>d y. currentDrawerId (room w) = Some d
                      \<and> scoreOf d (players (room w)) = Some y \<and> \<bar>y + 10\<bar> \<le> 2 ^ 53 \<longrightarrow>
                  scoreOf d (players (room (snd (processGuess toUpperCase sid guess w))))
                    = Some (y + 10))
            \<and> ((\<forall>x. scoreOf sid (players (room w)) = Some x \<longrightarrow> \<bar>x + 50\<bar> \<le> 2 ^ 53)
                \<and> (\<forall>d y. currentDrawerId (room w) = Some d
                          \<and> scoreOf d (players (room w)) = Some y \<longrightarrow> \<bar>y + 10\<bar> \<le> 2 ^ 53) \<longrightarrow>
                  sum_list (map score (players (room (snd (processGuess toUpperCase sid guess w)))))
                    = sum_list (map score (players (room w))) + 50
                      + (case currentDrawerId (room w) of
                           None \<Rightarrow> 0
                         | Some d \<Rightarrow> if d \<in> set (playerIds w) then 10 else 0))
            \<and> guessedCorrectly (room (snd (processGuess toUpperCase sid guess w)))
                = guessedCorrectly (room w) @ [sid]
            \<and> awarded (fst (processGuess toUpperCase sid guess w)) = Some 50)
       \<and> (toUpperCase (trim guess) = toUpperCase secret
            \<and> sid \<in> set (guessedCorrectly (room w)) \<longrightarrow>
              processGuess toUpperCase sid guess w = (\<lparr>isCorrect = True, awarded = None\<rparr>, w))
       \<and> (toUpperCase (trim guess) = toUpperCase secret \<longrightarrow>
              (\<forall>again. snd (processGuess toUpperCase sid again
                               (snd (processGuess toUpperCase sid guess w)))
                         = snd (processGuess toUpperCase sid guess w)))"
proof (cases "toUpperCase (trim guess) = toUpperCase secret")
  case False
  with assms
  have "processGuess toUpperCase sid guess w = (\<lparr>isCorrect = False, awarded = None\<rparr>, w)"
    by (simp add: processGuess_def Let_def truthy_def)
  with False show ?thesis by simp
next
  case match: True
  show ?thesis
  proof (cases "sid \<in> set (guessedCorrectly (room w))")
    case True
    with assms match
    have r: "processGuess toUpperCase sid guess w = (\<lparr>isCorrect = True, awarded = None\<rparr>, w)"
      by (simp add: processGuess_def Let_def truthy_def)
    with True match show ?thesis
      by (simp add: processGuess_repeat)
  next
    case False
    let ?a = "afterFirstCorrect sid w"
    let ?w' = "snd (processGuess toUpperCase sid guess w)"
    from assms match False
    have r: "fst (processGuess toUpperCase sid guess w) = \<lparr>isCorrect = True, awarded = Some 50\<rparr>"
      and w': "?w' = endRound ?a \<or> ?w' = ?a"
      by (simp_all add: processGuess_first)
    from w' have pl: "players (room ?w') = players (room ?a)"
      and gc: "guessedCorrectly (room ?w') = guessedCorrectly (room w) @ [sid]"
      by auto
    from gc have "sid \<in> set (guessedCorrectly (room ?w'))"
      by simp
    then have again: "\<forall>again. snd (processGuess toUpperCase sid again ?w') = ?w'"
      by (simp add: processGuess_repeat)
    from assms(7) have mem: "scoreOf sid (players (room w)) \<noteq> None"
      by (simp add: scoreOf_member playerIds_def)
    from assms(6) have sc:
      "scoreOf sid (players (room ?w'))
         = map_option (\<lambda>x. jsAdd x 50) (scoreOf sid (players (room w)))"
      "\<forall>d. currentDrawerId (room w) = Some d \<longrightarrow>
         scoreOf d (players (room ?w'))
           = map_option (\<lambda>y. jsAdd y 10) (scoreOf d (players (room w)))"
      "\<forall>i. i \<noteq> sid \<and> currentDrawerId (room w) \<noteq> Some i \<longrightarrow>
         scoreOf i (players (room ?w')) = scoreOf i (players (room w))"
      by (auto simp: pl scoreOf_afterFirstCorrect)
    from sc(1) have ex1:
      "\<forall>x. scoreOf sid (players (room w)) = Some x \<and> \<bar>x + 50\<bar> \<le> 2 ^ 53 \<longrightarrow>
         scoreOf sid (players (room ?w')) = Some (x + 50)"
      by (auto simp: jsAdd_exact)
    from sc(2) have ex2:
      "\<forall>d y. currentDrawerId (room w) = Some d
             \<and> scoreOf d (players (room w)) = Some y \<and> \<bar>y + 10\<bar> \<le> 2 ^ 53 \<longrightarrow>
         scoreOf d (players (room ?w')) = Some (y + 10)"
      by (auto simp: jsAdd_exact)
    have total:
      "(\<forall>x. scoreOf sid (players (room w)) = Some x \<longrightarrow> \<bar>x + 50\<bar> \<le> 2 ^ 53)
       \<and> (\<forall>d y. currentDrawerId (room w) = Some d
                 \<and> scoreOf d (players (room w)) = Some y \<longrightarrow> \<bar>y + 10\<bar> \<le> 2 ^ 53) \<longrightarrow>
         sum_list (map score (players (room ?w')))
           = sum_list (map score (players (room w))) + 50
             + (case currentDrawerId (room w) of
                  None \<Rightarrow> 0
                | Some d \<Rightarrow> if d \<in> set (playerIds w) then 10 else 0)"
      using sum_score_exact [OF assms(6,7)] by (simp only: pl) blast
    from match False r gc again mem sc ex1 ex2 total show ?thesis
      by simp
  qed
qed

text \<open>
  The guesses \<open>cat\<close> with a trailing space, and \<open>cat\<close> between a no-break space and a byte
  order mark, for the secret word \<open>CAT\<close>.
\<close>

theorem C2_guess_matching_and_scoring_witness:
  "registered demoDrawing \<and> status (room demoDrawing) = Playing
   \<and> roundPhase (room demoDrawing) = Some Drawing
   \<and> secretWord (room demoDrawing) = Some (js ''CAT'')
   \<and> currentDrawerId (room demoDrawing) \<noteq> Some ''s2''
   \<and> ''s2'' \<in> set (playerIds demoDrawing)
   \<and> asciiUpperCase (trim (js ''cat '')) = asciiUpperCase (js ''CAT'')
   \<and> isCorrect (fst (processGuess asciiUpperCase ''s2'' (js ''cat '') demoDrawing))
   \<and> isCorrect (fst (processGuess asciiUpperCase ''s2'' [0xA0, 0x63, 0x61, 0x74, 0xFEFF]
                       demoDrawing))
   \<and> scoreOf ''s2'' (players (room demoReview)) = Some 50
   \<and> scoreOf ''s1'' (players (room demoReview)) = Some 10
   \<and> guessedCorrectly (room demoReview) = [''s2'']
   \<and> snd (processGuess asciiUpperCase ''s2'' (js ''CAT'') demoReview) = demoReview"
proof -
  have h: "registered demoDrawing" "status (room demoDrawing) = Playing"
    "roundPhase (room demoDrawing) = Some Drawing"
    "secretWord (room demoDrawing) = Some (js ''CAT'')" "js ''CAT'' \<noteq> []"
    "currentDrawerId (room demoDrawing) \<noteq> Some ''s2''"
    "''s2'' \<in> set (playerIds demoDrawing)"
    by code_simp+
  have m: "asciiUpperCase (trim (js ''cat '')) = asciiUpperCase (js ''CAT'')"
    "asciiUpperCase (trim [0xA0, 0x63, 0x61, 0x74, 0xFEFF]) = asciiUpperCase (js ''CAT'')"
    by code_simp+
  have before: "scoreOf ''s2'' (players (room demoDrawing)) = Some 0"
    "scoreOf ''s1'' (players (room demoDrawing)) = Some 0"
    "guessedCorrectly (room demoDrawing) = []"
    "currentDrawerId (room demoDrawing) = Some ''s1''"
    by code_simp+
  note t = C2_guess_matching_and_scoring [OF h, of asciiUpperCase "js ''cat ''"]
  note u = C2_guess_matching_and_scoring
             [OF h, of asciiUpperCase "[0xA0, 0x63, 0x61, 0x74, 0xFEFF]"]
  from t m(1) have c: "isCorrect (fst (processGuess asciiUpperCase ''s2'' (js ''cat '') demoDrawing))"
    by blast
  from u m(2)
  have d: "isCorrect (fst (processGuess asciiUpperCase ''s2'' [0xA0, 0x63, 0x61, 0x74, 0xFEFF]
                            demoDrawing))"
    by blast
  from t m(1) before have "scoreOf ''s2'' (players (room demoReview)) = Some 50"
    "scoreOf ''s1'' (players (room demoReview)) = Some 10"
    "guessedCorrectly (room demoReview) = [''s2'']"
    "snd (processGuess asciiUpperCase ''s2'' (js ''CAT'') demoReview) = demoReview"
    unfolding demoReview_def by (simp_all add: jsAdd_exact)
  with h m(1) c d show ?thesis
    by simp
qed

text \<open>
  C2 (as the specification states it) fails in two rooms in the drawing phase: with the
  empty secret word, and with \<open>status = lobby\<close>, a non-drawer's guess that equals the
  secret word after trimming, whatever the case, is reported not correct. And the first
  correct guess of a player who has \<open>2 ^ 54\<close> points adds 48 points, the sum with 50 not
  being a double.
\<close>

theorem C2_guard_counterexample:
  "status (room demoEmptyWord) = Playing
   \<and> roundPhase (room demoEmptyWord) = Some Drawing
   \<and> currentDrawerId (room demoEmptyWord) \<noteq> Some ''s2''
   \<and> ''s2'' \<in> set (playerIds demoEmptyWord)
   \<and> secretWord (room demoEmptyWord) = Some []
   \<and> asciiUpperCase (trim (js '' '')) = asciiUpperCase []
   \<and> \<not> isCorrect (fst (processGuess asciiUpperCase ''s2'' (js '' '') demoEmptyWord))
   \<and> status (room demoStale) = Lobby
   \<and> roundPhase (room demoStale) = Some Drawing
   \<and> currentDrawerId (room demoStale) \<noteq> Some ''s2''
   \<and> ''s2'' \<in> set (playerIds demoStale)
   \<and> secretWord (room demoStale) = Some (js ''DOG'')
   \<and> asciiUpperCase (trim (js ''dog'')) = asciiUpperCase (js ''DOG'')
   \<and> \<not> isCorrect (fst (processGuess asciiUpperCase ''s2'' (js ''dog'') demoStale))
   \<and> status (room demoHighScore) = Playing
   \<and> roundPhase (room demoHighScore) = Some Drawing
   \<and> currentDrawerId (room demoHighScore) = Some ''s1''
   \<and> guessedCorrectly (room demoHighScore) = []
   \<and> scoreOf ''s2'' (players (room demoHighScore)) = Some (2 ^ 54)
   \<and> isCorrect (fst (processGuess asciiUpperCase ''s2'' (js ''cat'') demoHighScore))
   \<and> scoreOf ''s2'' (players (room (snd (processGuess asciiUpperCase ''s2'' (js ''cat'')
                                            demoHighScore))))
       = Some (2 ^ 54 + 48)"
  by code_simp

section \<open>Guesses that are ignored\<close>

text \<open>
  C3. In every state, a guess of the current drawer is rejected, and so is every guess made
  while the round phase is not \<open>drawing\<close>: the answer is "not correct" and nothing
  changes, neither a score nor \<open>guessedCorrectly\<close> nor anything else of the state.
\<close>

theorem C3_drawer_or_wrong_phase_ignored:
  assumes "currentDrawerId (room w) = Some sid \<or> roundPhase (room w) \<noteq> Some Drawing"
  shows "processGuess toUpperCase sid guess w = (\<lparr>isCorrect = False, awarded = None\<rparr>, w)"
  using assms by (auto simp: processGuess_def Let_def)

theorem C3_drawer_or_wrong_phase_ignored_witness:
  "currentDrawerId (room demoDrawing) = Some ''s1''
   \<and> processGuess asciiUpperCase ''s1'' (js ''CAT'') demoDrawing = (\<lparr>isCorrect = False, awarded = None\<rparr>, demoDrawing)
   \<and> roundPhase (room demoReview) \<noteq> Some Drawing
   \<and> processGuess asciiUpperCase ''s2'' (js ''CAT'') demoReview = (\<lparr>isCorrect = False, awarded = None\<rparr>, demoReview)"
proof -
  have d: "currentDrawerId (room demoDrawing) = Some ''s1''"
    by code_simp
  have p: "roundPhase (room demoReview) \<noteq> Some Drawing"
    by code_simp
  from d have "processGuess asciiUpperCase ''s1'' (js ''CAT'') demoDrawing = (\<lparr>isCorrect = False, awarded = None\<rparr>, demoDrawing)"
    by (intro C3_drawer_or_wrong_phase_ignored disjI1)
  moreover from p have "processGuess asciiUpperCase ''s2'' (js ''CAT'') demoReview = (\<lparr>isCorrect = False, awarded = None\<rparr>, demoReview)"
    by (intro C3_drawer_or_wrong_phase_ignored disjI2)
  ultimately show ?thesis using d p by simp
qed

section \<open>The turn ends when everyone has guessed\<close>

lemma processGuess_correct:
  assumes "isCorrect (fst (processGuess toUpperCase sid guess w))"
  shows "registered w \<and> status (room w) = Playing \<and> roundPhase (room w) = Some Drawing
       \<and> currentDrawerId (room w) \<noteq> Some sid
       \<and> (\<exists>secret. secretWord (room w) = Some secret \<and> secret \<noteq> []
                   \<and> toUpperCase (trim guess) = toUpperCase secret)"
  using assms
  by (auto simp: processGuess_def Let_def truthy_def split: if_splits option.splits)

lemma covered_guessers_count:
  assumes "distinct (map pid ps)"
    and "\<forall>p \<in> set ps. Some (pid p) \<noteq> c \<longrightarrow> pid p \<in> set gs"
  shows "length (filter (\<lambda>p. Some (pid p) \<noteq> c) ps) \<le> length gs"
proof -
  let ?ids = "map pid (filter (\<lambda>p. Some (pid p) \<noteq> c) ps)"
  from assms(1) have "distinct ?ids"
    by (rule distinct_map_filter)
  then have "card (set ?ids) = length ?ids"
    by (rule distinct_card)
  then have "length ?ids = card (set ?ids)"
    by (rule sym)
  also from assms(2) have "set ?ids \<subseteq> set gs"
    by auto
  then have "card (set ?ids) \<le> card (set gs)"
    by (simp add: card_mono)
  also have "\<dots> \<le> length gs"
    by (rule card_length)
  finally show ?thesis
    by simp
qed

text \<open>
  C4 (as the code has it). When a correct guess adds its sender to \<open>guessedCorrectly\<close> and
  \<open>guessedCorrectly\<close> then covers every player of the room other than the drawer, the
  identifiers of the players being pairwise distinct, the turn ends in that same call:
  the phase is \<open>review\<close>, the public word is the secret word, the timer held in
  \<open>room.timer\<close> (the drawing countdown) is cancelled, and the review delay is scheduled.
\<close>

theorem C4_all_guessed_ends_turn:
  assumes "isCorrect (fst (processGuess toUpperCase sid guess w))"
    and "sid \<notin> set (guessedCorrectly (room w))"
    and "distinct (playerIds w)"
    and "\<forall>p \<in> set (players (room w)).
           Some (pid p) \<noteq> currentDrawerId (room w)
             \<longrightarrow> pid p \<in> set (guessedCorrectly (room w) @ [sid])"
  shows "roundPhase (room (snd (processGuess toUpperCase sid guess w))) = Some Review
       \<and> currentWord (room (snd (processGuess toUpperCase sid guess w))) = secretWord (room w)
       \<and> secretWord (room w) \<noteq> None
       \<and> guessedCorrectly (room (snd (processGuess toUpperCase sid guess w)))
           = guessedCorrectly (room w) @ [sid]
       \<and> live (snd (processGuess toUpperCase sid guess w))
           = filter (\<lambda>t. Some (fst t) \<noteq> timer (room w)) (live w) @ [(fresh w, ReviewDelay)]"
proof -
  from processGuess_correct [OF assms(1)] obtain secret where
    g: "registered w" "status (room w) = Playing" "roundPhase (room w) = Some Drawing"
       "currentDrawerId (room w) \<noteq> Some sid" "secretWord (room w) = Some secret"
       "secret \<noteq> []" "toUpperCase (trim guess) = toUpperCase secret"
    by blast
  from assms(3,4)
  have "length (filter (\<lambda>p. Some (pid p) \<noteq> currentDrawerId (room w)) (players (room w)))
          \<le> length (guessedCorrectly (room w) @ [sid])"
    unfolding playerIds_def by (rule covered_guessers_count)
  with g assms(2)
  have w': "snd (processGuess toUpperCase sid guess w) = endRound (afterFirstCorrect sid w)"
    by (simp add: processGuess_first)
  have "live (clearRoomTimer (afterFirstCorrect sid w))
          = filter (\<lambda>t. Some (fst t) \<noteq> timer (room w)) (live w)"
    by (simp add: live_clearRoomTimer split: option.split)
  with g show ?thesis
    by (simp add: w' endRound_room endRound_live)
qed

theorem C4_all_guessed_ends_turn_witness:
  "isCorrect (fst (processGuess asciiUpperCase ''s2'' (js ''cat '') demoDrawing))
   \<and> ''s2'' \<notin> set (guessedCorrectly (room demoDrawing))
   \<and> distinct (playerIds demoDrawing)
   \<and> roundPhase (room demoReview) = Some Review
   \<and> currentWord (room demoReview) = Some (js ''CAT'')
   \<and> live demoDrawing = [(2, DrawCountdown 60)]
   \<and> live demoReview = [(3, ReviewDelay)]"
proof -
  have h: "isCorrect (fst (processGuess asciiUpperCase ''s2'' (js ''cat '') demoDrawing))"
    "''s2'' \<notin> set (guessedCorrectly (room demoDrawing))"
    "distinct (playerIds demoDrawing)"
    "\<forall>p \<in> set (players (room demoDrawing)).
       Some (pid p) \<noteq> currentDrawerId (room demoDrawing)
         \<longrightarrow> pid p \<in> set (guessedCorrectly (room demoDrawing) @ [''s2''])"
    by code_simp+
  have before: "secretWord (room demoDrawing) = Some (js ''CAT'')"
    "live demoDrawing = [(2, DrawCountdown 60)]" "timer (room demoDrawing) = Some 2"
    "fresh demoDrawing = 3"
    by code_simp+
  from C4_all_guessed_ends_turn [OF h] before
  have "roundPhase (room demoReview) = Some Review"
    "currentWord (room demoReview) = Some (js ''CAT'')"
    "live demoReview = [(3, ReviewDelay)]"
    unfolding demoReview_def by simp_all
  with h(1-3) before(2) show ?thesis
    by simp
qed

text \<open>
  C4 (as the specification states it) fails when a connection is listed twice: after the
  correct guess of \<open>s2\<close>, \<open>guessedCorrectly\<close> covers every player other than the drawer, but
  the code compares the lengths of the two lists, and the phase stays \<open>drawing\<close>.
\<close>

theorem C4_listed_twice_counterexample:
  "isCorrect (fst (processGuess asciiUpperCase ''s2'' (js ''cat'') demoTwiceDrawing))
   \<and> roundPhase (room demoTwiceDrawing) = Some Drawing
   \<and> playerIds demoTwiceGuessed = [''s1'', ''s2'', ''s2'']
   \<and> currentDrawerId (room demoTwiceGuessed) = Some ''s1''
   \<and> guessedCorrectly (room demoTwiceGuessed) = [''s2'']
   \<and> roundPhase (room demoTwiceGuessed) = Some Drawing
   \<and> currentWord (room demoTwiceGuessed) \<noteq> secretWord (room demoTwiceGuessed)"
  by code_simp

section \<open>The players who have drawn\<close>

lemma startNewRound_drawn_within:
  assumes "registered w"
  shows "set (drawnPlayers (room (startNewRound rnd w)))
           \<subseteq> set (map pid (players (room (startNewRound rnd w))))
       \<and> length (drawnPlayers (room (startNewRound rnd w)))
           \<le> length (players (room (startNewRound rnd w)))"
  using assms
proof (induction rule: startNewRound_cases)
  case (ended rnd w)
  then show ?case
    by (simp add: startNewRound_ended)
next
  case (pick rnd w)
  let ?r4 = "resetTurn (nextRound (cleanDrawn (room w)))"
  let ?d = "availableDrawers ?r4 ! (drawerRand rnd mod length (availableDrawers ?r4))"
  from pick(3) have d: "?d \<in> set (players (room w))"
    using picked_drawer(1) [of ?r4] by simp
  have sub: "set (drawnPlayers ?r4) \<subseteq> set (map pid (players (room w)))"
    using cleanDrawn_fields(5) [of "room w"] by auto
  from d have ne: "players (room w) \<noteq> []"
    by auto
  have len: "length (drawnPlayers ?r4) < length (players (room w))"
    using ne by (auto simp: everyoneDrew_def)
  from pick d sub len show ?case
    by (simp add: startNewRound_pick Let_def)
next
  case (stuck rnd w)
  then show ?case
    by (simp add: startNewRound_stuck)
next
  case (fallback rnd w)
  then show ?case
    by (simp add: startNewRound_fallback)
qed

lemma drawnWithin_frame:
  assumes "map pid (players (room w')) = map pid (players (room w))"
    and "drawnPlayers (room w') = drawnPlayers (room w)"
  shows "drawnWithin w' = drawnWithin w"
proof -
  from assms(1) have "length (players (room w')) = length (players (room w))"
    by (rule map_eq_imp_length_eq)
  with assms show ?thesis
    by (simp add: drawnWithin_def playerIds_def)
qed

lemma drawnWithin_empty: "drawnPlayers (room w) = [] \<Longrightarrow> drawnWithin w"
  by (simp add: drawnWithin_def)

lemma drawnWithin_startNewRound: "drawnWithin w \<Longrightarrow> drawnWithin (startNewRound rnd w)"
proof (cases "registered w")
  case True
  then show ?thesis
    using startNewRound_drawn_within [of w rnd] by (simp add: drawnWithin_def playerIds_def)
next
  case False
  then show "drawnWithin w \<Longrightarrow> ?thesis"
    by (simp add: startNewRound_unregistered)
qed

lemma drawnWithin_selectWord: "drawnWithin (selectWord now word w) = drawnWithin w"
  by (rule drawnWithin_frame) (simp_all add: selectWord_def Let_def)

lemma drawnWithin_endRound: "drawnWithin (endRound w) = drawnWithin w"
  by (rule drawnWithin_frame) simp_all

lemma drawnWithin_steps [simp]:
  "drawnWithin (onTick t w) = drawnWithin w"
  "drawnWithin (setAction h a w) = drawnWithin w"
  "drawnWithin (clearRoomTimer w) = drawnWithin w"
  "drawnWithin (clearInterval h w) = drawnWithin w"
  by (rule drawnWithin_frame, simp, simp)+

lemma drawnWithin_fire: "drawnWithin w \<Longrightarrow> drawnWithin (fire now rnd h w)"
  by (simp add: fire_def Let_def drawnWithin_startNewRound drawnWithin_selectWord
                drawnWithin_endRound
           split: option.split timerAction.split list.split)

lemma drawnWithin_processGuess:
  "drawnWithin (snd (processGuess toUpperCase sid guess w)) = drawnWithin w"
  by (rule drawnWithin_frame) (simp_all add: processGuess_def Let_def split: option.split)

lemma drawnWithin_updateSettings:
  assumes "KPlayers \<notin> keyOf ` set settings" and "KDrawnPlayers \<notin> keyOf ` set settings"
  shows "drawnWithin (updateSettings settings w) = drawnWithin w"
proof -
  from assms(1)
  have "readField KPlayers (objectAssign (room w) settings) = readField KPlayers (room w)"
    by (rule readField_objectAssign_other)
  then have p: "players (objectAssign (room w) settings) = players (room w)"
    by simp
  from assms(2)
  have "readField KDrawnPlayers (objectAssign (room w) settings)
          = readField KDrawnPlayers (room w)"
    by (rule readField_objectAssign_other)
  then have d: "drawnPlayers (objectAssign (room w) settings) = drawnPlayers (room w)"
    by simp
  show ?thesis
    by (rule drawnWithin_frame) (simp_all add: updateSettings_def p d)
qed

lemma undisturbed_drawnWithin: "undisturbed w \<Longrightarrow> drawnWithin w"
proof (induction rule: undisturbed.induct)
  case (u_created roomId username avatar' sid drawTime' rounds)
  show ?case
    by (simp add: drawnWithin_def createRoom_def)
next
  case (u_advanced w rnd)
  then show ?case
    using startNewRound_drawn_within [of w rnd] by (simp add: drawnWithin_def playerIds_def)
next
  case (u_joined w username avatar' sid)
  then show ?case
    by (auto simp: drawnWithin_def playerIds_def joinRoom_def Let_def)
next
  case (u_updated w settings)
  then show ?case
    by (simp add: drawnWithin_updateSettings)
next
  case (u_started w)
  show ?case
    by (cases "registered w")
       (simp_all add: drawnWithin_def startGame_def Let_def u_started.IH [unfolded drawnWithin_def])
next
  case (u_reset w)
  show ?case
    by (cases "registered w")
       (simp_all add: drawnWithin_def resetToLobby_def Let_def u_reset.IH [unfolded drawnWithin_def])
next
  case (u_selected w now word)
  then show ?case
    by (simp add: drawnWithin_selectWord)
next
  case (u_guessed w toUpperCase sid guess)
  then show ?case
    by (simp add: drawnWithin_processGuess)
next
  case (u_fired w now rnd h)
  then show ?case
    by (simp add: drawnWithin_fire)
qed

lemma undisturbed_demoSecondTurn: "undisturbed demoSecondTurn"
  unfolding demoSecondTurn_def demoReview_def demoDrawing_def demoSelecting_def
            demoStarting_def demoLobby_def
  by (intro undisturbed.intros)

lemma covering_everyoneDrew:
  assumes "distinct (map pid (players r))"
    and "set (map pid (players r)) \<subseteq> set (drawnPlayers r)"
  shows "everyoneDrew (cleanDrawn r)"
proof -
  let ?kept = "filter (\<lambda>i. i \<in> set (map pid (players r))) (drawnPlayers r)"
  from assms(1) have "card (set (map pid (players r))) = length (map pid (players r))"
    by (rule distinct_card)
  then have "length (players r) = card (set (map pid (players r)))"
    by simp
  also from assms(2) have "set (map pid (players r)) \<subseteq> set ?kept"
    by auto
  then have "card (set (map pid (players r))) \<le> card (set ?kept)"
    by (simp add: card_mono)
  also have "\<dots> \<le> length ?kept"
    by (rule card_length)
  finally show ?thesis
    by (simp add: everyoneDrew_def cleanDrawn_def)
qed

text \<open>
  C5 (as the code has it). In every state reached from the creation of the room, or from
  any turn advance of an existing room, by the operations and the timers without a
  departure and without a settings update naming \<open>players\<close> or \<open>drawnPlayers\<close>,
  \<open>drawnPlayers\<close> holds identifiers of current players only and is no longer than the
  player list. When \<open>startNewRound\<close> runs in a room with players, with pairwise distinct
  identifiers, all of them in \<open>drawnPlayers\<close>, it performs \<open>currentRound++\<close>, which adds
  exactly one as long as the sum stays within \<open>2 ^ 53\<close> of zero, and clears \<open>drawnPlayers\<close>
  first; if the incremented round exceeds \<open>totalRounds\<close> the session ends (status
  \<open>ended\<close>, no phase, no drawer) and no timer is started, the timer of \<open>room.timer\<close> being
  cancelled; otherwise the status is kept, a drawer is chosen and the phase is
  \<open>selecting\<close>.
\<close>

theorem C5_drawn_players_and_round_advance:
  "(undisturbed w \<longrightarrow>
      set (drawnPlayers (room w)) \<subseteq> set (playerIds w)
    \<and> length (drawnPlayers (room w)) \<le> length (players (room w)))
   \<and> (registered w \<and> players (room w) \<noteq> [] \<and> distinct (playerIds w)
        \<and> set (playerIds w) \<subseteq> set (drawnPlayers (room w)) \<longrightarrow>
          currentRound (room (startNewRound rnd w)) = jsAdd (currentRound (room w)) 1
        \<and> (\<bar>currentRound (room w) + 1\<bar> \<le> 2 ^ 53 \<longrightarrow>
              currentRound (room (startNewRound rnd w)) = currentRound (room w) + 1)
        \<and> (totalRounds (room w) < jsAdd (currentRound (room w)) 1 \<longrightarrow>
              status (room (startNewRound rnd w)) = Ended
            \<and> roundPhase (room (startNewRound rnd w)) = None
            \<and> currentDrawerId (room (startNewRound rnd w)) = None
            \<and> drawnPlayers (room (startNewRound rnd w)) = []
            \<and> live (startNewRound rnd w)
                = filter (\<lambda>t. Some (fst t) \<noteq> timer (room w)) (live w))
        \<and> (\<not> totalRounds (room w) < jsAdd (currentRound (room w)) 1 \<longrightarrow>
              status (room (startNewRound rnd w)) = status (room w)
            \<and> roundPhase (room (startNewRound rnd w)) = Some Selecting
            \<and> (\<exists>d \<in> set (playerIds w).
                  currentDrawerId (room (startNewRound rnd w)) = Some d
                \<and> drawnPlayers (room (startNewRound rnd w)) = [d])))"
proof -
  have within: "set (drawnPlayers (room w)) \<subseteq> set (playerIds w)
              \<and> length (drawnPlayers (room w)) \<le> length (players (room w))"
    if "undisturbed w"
    using undisturbed_drawnWithin [OF that] by (simp add: drawnWithin_def)
  have adv: "currentRound (room (startNewRound rnd w)) = jsAdd (currentRound (room w)) 1
            \<and> (\<bar>currentRound (room w) + 1\<bar> \<le> 2 ^ 53 \<longrightarrow>
                  currentRound (room (startNewRound rnd w)) = currentRound (room w) + 1)
            \<and> (totalRounds (room w) < jsAdd (currentRound (room w)) 1 \<longrightarrow>
                  status (room (startNewRound rnd w)) = Ended
                \<and> roundPhase (room (startNewRound rnd w)) = None
                \<and> currentDrawerId (room (startNewRound rnd w)) = None
                \<and> drawnPlayers (room (startNewRound rnd w)) = []
                \<and> live (startNewRound rnd w)
                    = filter (\<lambda>t. Some (fst t) \<noteq> timer (room w)) (live w))
            \<and> (\<not> totalRounds (room w) < jsAdd (currentRound (room w)) 1 \<longrightarrow>
                  status (room (startNewRound rnd w)) = status (room w)
                \<and> roundPhase (room (startNewRound rnd w)) = Some Selecting
                \<and> (\<exists>d \<in> set (playerIds w).
                      currentDrawerId (room (startNewRound rnd w)) = Some d
                    \<and> drawnPlayers (room (startNewRound rnd w)) = [d]))"
    if reg: "registered w" and ne: "players (room w) \<noteq> []" and di: "distinct (playerIds w)"
      and co: "set (playerIds w) \<subseteq> set (drawnPlayers (room w))"
  proof -
    from di co have all: "everyoneDrew (cleanDrawn (room w))"
      unfolding playerIds_def by (rule covering_everyoneDrew)
    have round: "currentRound (room (startNewRound rnd w)) = jsAdd (currentRound (room w)) 1"
    proof (cases "totalRounds (room w) < jsAdd (currentRound (room w)) 1")
      case True
      with reg all show ?thesis
        by (simp add: startNewRound_ended)
    next
      case False
      let ?r4 = "resetTurn (nextRound (cleanDrawn (room w)))"
      from all ne have "availableDrawers ?r4 \<noteq> []"
        by (simp add: availableDrawers_def)
      with reg all False show ?thesis
        by (simp add: startNewRound_pick Let_def)
    qed
    then have exact: "\<bar>currentRound (room w) + 1\<bar> \<le> 2 ^ 53 \<longrightarrow>
                 currentRound (room (startNewRound rnd w)) = currentRound (room w) + 1"
      by (simp add: jsAdd_exact)
    have rest: "(totalRounds (room w) < jsAdd (currentRound (room w)) 1 \<longrightarrow>
                  status (room (startNewRound rnd w)) = Ended
                \<and> roundPhase (room (startNewRound rnd w)) = None
                \<and> currentDrawerId (room (startNewRound rnd w)) = None
                \<and> drawnPlayers (room (startNewRound rnd w)) = []
                \<and> live (startNewRound rnd w)
                    = filter (\<lambda>t. Some (fst t) \<noteq> timer (room w)) (live w))
            \<and> (\<not> totalRounds (room w) < jsAdd (currentRound (room w)) 1 \<longrightarrow>
                  status (room (startNewRound rnd w)) = status (room w)
                \<and> roundPhase (room (startNewRound rnd w)) = Some Selecting
                \<and> (\<exists>d \<in> set (playerIds w).
                      currentDrawerId (room (startNewRound rnd w)) = Some d
                    \<and> drawnPlayers (room (startNewRound rnd w)) = [d]))"
    proof (cases "totalRounds (room w) < jsAdd (currentRound (room w)) 1")
      case True
      have "live (clearRoomTimer w) = filter (\<lambda>t. Some (fst t) \<noteq> timer (room w)) (live w)"
        by (simp add: live_clearRoomTimer split: option.split)
      with reg all True show ?thesis
        by (simp add: startNewRound_ended)
    next
      case False
      let ?r4 = "resetTurn (nextRound (cleanDrawn (room w)))"
      from all ne have av: "availableDrawers ?r4 = players (room w)"
        by (simp add: availableDrawers_def)
      with ne have "availableDrawers ?r4 \<noteq> []"
        by simp
      moreover from ne
      have "pid (players (room w) ! (drawerRand rnd mod length (players (room w))))
              \<in> set (playerIds w)"
        by (simp add: playerIds_def)
      ultimately show ?thesis
        using reg all False av
        by (simp add: startNewRound_pick Let_def)
    qed
    from round exact rest show ?thesis
      by blast
  qed
  from within adv show ?thesis
    by blast
qed

theorem C5_drawn_players_and_round_advance_witness:
  "undisturbed demoSecondTurn
   \<and> registered demoSecondTurn \<and> players (room demoSecondTurn) \<noteq> []
   \<and> distinct (playerIds demoSecondTurn)
   \<and> set (playerIds demoSecondTurn) \<subseteq> set (drawnPlayers (room demoSecondTurn))
   \<and> length (drawnPlayers (room demoSecondTurn)) \<le> length (players (room demoSecondTurn))
   \<and> currentRound (room demoSecondTurn) = 1 \<and> totalRounds (room demoSecondTurn) = 3
   \<and> currentRound (room (startNewRound demoRand demoSecondTurn)) = 2
   \<and> roundPhase (room (startNewRound demoRand demoSecondTurn)) = Some Selecting
   \<and> status (room (startNewRound demoRand (updateSettings [SetTotalRounds 1] demoSecondTurn)))
       = Ended"
proof -
  let ?last = "updateSettings [SetTotalRounds 1] demoSecondTurn"
  note u = undisturbed_demoSecondTurn
  have h: "registered demoSecondTurn" "players (room demoSecondTurn) \<noteq> []"
    "distinct (playerIds demoSecondTurn)"
    "set (playerIds demoSecondTurn) \<subseteq> set (drawnPlayers (room demoSecondTurn))"
    "currentRound (room demoSecondTurn) = 1" "totalRounds (room demoSecondTurn) = 3"
    by code_simp+
  have k: "registered ?last" "players (room ?last) \<noteq> []" "distinct (playerIds ?last)"
    "set (playerIds ?last) \<subseteq> set (drawnPlayers (room ?last))"
    "currentRound (room ?last) = 1" "totalRounds (room ?last) = 1"
    by code_simp+
  from C5_drawn_players_and_round_advance [of demoSecondTurn demoRand] u h
  have "length (drawnPlayers (room demoSecondTurn)) \<le> length (players (room demoSecondTurn))"
    "currentRound (room (startNewRound demoRand demoSecondTurn)) = 2"
    "roundPhase (room (startNewRound demoRand demoSecondTurn)) = Some Selecting"
    by (simp_all add: jsAdd_exact)
  moreover from C5_drawn_players_and_round_advance [of ?last demoRand] k
  have "status (room (startNewRound demoRand ?last)) = Ended"
    by (simp add: jsAdd_exact)
  ultimately show ?thesis
    using u h by simp
qed

text \<open>
  C5 (as the specification states it) fails after a departure: \<open>leaveRoom\<close> does not remove
  the player from \<open>drawnPlayers\<close>. After \<open>s2\<close>, the second drawer, has left, \<open>drawnPlayers\<close>
  names two players, one of them gone, in a room of one. And the round counter is not
  incremented by one whenever \<open>drawnPlayers\<close> covers the players: in the room that lists
  \<open>s2\<close> twice it stays as it is; in a room without players it runs up to
  \<open>totalRounds + 1\<close> and the session ends; and in round \<open>2 ^ 53\<close> of \<open>2 ^ 53\<close> the increment is
  rounded back, so that the round stays \<open>2 ^ 53\<close> and the session goes on.
\<close>

theorem C5_departed_drawer_counterexample:
  "registered demoDrawerLeft
   \<and> playerIds demoDrawerLeft = [''s1'']
   \<and> drawnPlayers (room demoDrawerLeft) = [''s1'', ''s2'']
   \<and> \<not> set (drawnPlayers (room demoDrawerLeft)) \<subseteq> set (playerIds demoDrawerLeft)
   \<and> \<not> length (drawnPlayers (room demoDrawerLeft)) \<le> length (players (room demoDrawerLeft))
   \<and> registered demoTwiceSecondTurn
   \<and> playerIds demoTwiceSecondTurn = [''s1'', ''s2'', ''s2'']
   \<and> drawnPlayers (room demoTwiceSecondTurn) = [''s1'', ''s2'']
   \<and> currentRound (room demoTwiceSecondTurn) = 1
   \<and> currentRound (room (startNewRound demoRand demoTwiceSecondTurn)) = 1
   \<and> registered demoEmptied
   \<and> playerIds demoEmptied = []
   \<and> currentRound (room demoEmptied) = 1 \<and> totalRounds (room demoEmptied) = 3
   \<and> currentRound (room (startNewRound demoRand demoEmptied)) = 4
   \<and> status (room (startNewRound demoRand demoEmptied)) = Ended
   \<and> registered demoRoundLimit
   \<and> playerIds demoRoundLimit = [''s1'', ''s2'']
   \<and> drawnPlayers (room demoRoundLimit) = [''s1'', ''s2'']
   \<and> currentRound (room demoRoundLimit) = 2 ^ 53
   \<and> totalRounds (room demoRoundLimit) = 2 ^ 53
   \<and> currentRound (room (startNewRound demoRand demoRoundLimit)) = 2 ^ 53
   \<and> status (room (startNewRound demoRand demoRoundLimit)) = Playing
   \<and> roundPhase (room (startNewRound demoRand demoRoundLimit)) = Some Selecting"
  by code_simp

section \<open>The public view\<close>

lemma getPublicRoom_wordsToChoose: "wordsToChoose (getPublicRoom r) = []"
  by (simp add: getPublicRoom_def)

lemma getPublicRoom_independent:
  "getPublicRoom (r\<lparr>secretWord := s, timer := t, wordsToChoose := ws\<rparr>) = getPublicRoom r"
  by (simp add: getPublicRoom_def SanitizedRoom.defs Room.defs)

lemma sentSince_onRoomUpdate:
  "(dest, ev) \<in> set (sentSince w (onRoomUpdate w)) \<Longrightarrow> carriesOptions ev \<Longrightarrow>
     currentDrawerId (room w) = Some dest"
  by (auto simp: sentSince_def onRoomUpdate_def Let_def carriesOptions_def
                 getPublicRoom_wordsToChoose
           split: option.splits if_splits)

text \<open>
  C6. The view that \<open>getPublicRoom\<close> produces for broadcast has an empty \<open>wordsToChoose\<close>
  and no \<open>secretWord\<close> field: its type has none, and the view is the same whatever the
  room holds in \<open>secretWord\<close>, \<open>timer\<close> and \<open>wordsToChoose\<close>. A notification broadcasts
  this view to the room, and any event it sends that carries word options is addressed to
  the current drawer.
\<close>

theorem C6_public_view_strips_secret_and_options:
  "wordsToChoose (getPublicRoom r) = []
   \<and> getPublicRoom (r\<lparr>secretWord := s, timer := t, wordsToChoose := ws\<rparr>) = getPublicRoom r
   \<and> (roomKey w, RoomUpdated (getPublicRoom (room w))) \<in> set (sentSince w (onRoomUpdate w))
   \<and> (\<forall>dest ev. (dest, ev) \<in> set (sentSince w (onRoomUpdate w)) \<and> carriesOptions ev
          \<longrightarrow> currentDrawerId (room w) = Some dest)"
  apply (intro conjI allI impI)
     apply (rule getPublicRoom_wordsToChoose)
    apply (rule getPublicRoom_independent)
   apply (simp add: sentSince_def onRoomUpdate_def Let_def split: option.splits)
  apply (erule conjE, erule (1) sentSince_onRoomUpdate)
  done

theorem C6_public_view_strips_secret_and_options_witness:
  "(''s1'', ChooseWords [js ''CAT'', js ''DOG'', js ''ICE CREAM''])
      \<in> set (sentSince demoSelecting (onRoomUpdate demoSelecting))
   \<and> carriesOptions (ChooseWords [js ''CAT'', js ''DOG'', js ''ICE CREAM''])
   \<and> currentDrawerId (room demoSelecting) = Some ''s1''
   \<and> wordsToChoose (room demoSelecting) = [js ''CAT'', js ''DOG'', js ''ICE CREAM'']
   \<and> wordsToChoose (getPublicRoom (room demoSelecting)) = []"
proof -
  have a: "(''s1'', ChooseWords [js ''CAT'', js ''DOG'', js ''ICE CREAM''])
             \<in> set (sentSince demoSelecting (onRoomUpdate demoSelecting))"
    by code_simp
  have b: "carriesOptions (ChooseWords [js ''CAT'', js ''DOG'', js ''ICE CREAM''])"
    by (simp add: carriesOptions_def)
  have c: "wordsToChoose (room demoSelecting) = [js ''CAT'', js ''DOG'', js ''ICE CREAM'']"
    by code_simp
  note t = C6_public_view_strips_secret_and_options [where r = "room demoSelecting" and w = demoSelecting]
  from t a b have "currentDrawerId (room demoSelecting) = Some ''s1''"
    by blast
  moreover from t have "wordsToChoose (getPublicRoom (room demoSelecting)) = []"
    by blast
  ultimately show ?thesis using a b c by simp
qed

section \<open>Timers\<close>

text \<open>
  C7. At most one timer is live for a room, every operation that starts one cancels the
  one before, and the deletion of the room cancels it. The three countdowns, whose handles
  are kept in \<open>room.timer\<close>, are handled so, but the code breaks the property for the review
  delay: \<open>endRound\<close> does not keep the handle of its \<open>setTimeout\<close>, so no later operation
  cancels it. In the review of the demonstration game one timer is live. After
  \<open>start_game\<close> two timers are live; when the new countdown has run out the review delay is
  still live beside the selection countdown, and when it fires it advances the turn a
  second time, to the next drawer. And when both players leave, the drawer first, a second
  review delay is started beside the first, and the room is deleted while both stay live.
\<close>

theorem C7_review_delay_survives:
  "live demoReview = [(3, ReviewDelay)]
   \<and> live demoRestarted = [(3, ReviewDelay), (4, StartCountdown 3)]
   \<and> live demoRestartedSelecting
       = [(3, ReviewDelay), (5, SelectCountdown 5 [js ''CAT'', js ''DOG'', js ''ICE CREAM''])]
   \<and> currentDrawerId (room demoRestartedSelecting) = Some ''s1''
   \<and> roundPhase (room (fire 0 demoRand 3 demoRestartedSelecting)) = Some Selecting
   \<and> currentDrawerId (room (fire 0 demoRand 3 demoRestartedSelecting)) = Some ''s2''
   \<and> \<not> registered demoDeleted
   \<and> live demoDeleted = [(3, ReviewDelay), (4, ReviewDelay)]"
  by code_simp

section \<open>Starting the game\<close>










section \<open>The host\<close>

lemma hostCount_map: "hostCount w = length (filter id (map isHost (players (room w))))"
  by (simp add: hostCount_def filter_map comp_def)

lemma hostInv_frame:
  assumes "hostInv w" and "registered w' = registered w"
    and "map isHost (players (room w')) = map isHost (players (room w))"
  shows "hostInv w'"
proof -
  from assms(3) have "hostCount w' = hostCount w"
    by (simp add: hostCount_map)
  moreover from assms(3) have "players (room w') = [] \<longleftrightarrow> players (room w) = []"
    by (metis map_is_Nil_conv)
  ultimately show ?thesis
    using assms(1,2) by (simp add: hostInv_def)
qed

lemma startNewRound_players:
  "players (room (startNewRound rnd w)) = players (room w)
   \<and> registered (startNewRound rnd w) = registered w"
proof (cases "registered w")
  case False
  then show ?thesis by (simp add: startNewRound_unregistered)
next
  case True
  then show ?thesis
  proof (induction rule: startNewRound_cases)
    case (ended rnd w)
    then show ?case by (simp add: startNewRound_ended)
  next
    case (pick rnd w)
    then show ?case by (simp add: startNewRound_pick Let_def)
  next
    case (stuck rnd w)
    then show ?case by (simp add: startNewRound_stuck)
  next
    case (fallback rnd w)
    then show ?case by (simp add: startNewRound_fallback)
  qed
qed

lemma selectWord_players:
  "players (room (selectWord now word w)) = players (room w)
   \<and> registered (selectWord now word w) = registered w"
  by (simp add: selectWord_def Let_def)

lemma startGame_players:
  "players (room (startGame w)) = players (room w) \<and> registered (startGame w) = registered w"
  by (simp add: startGame_def Let_def)

lemma fire_players:
  "players (room (fire now rnd h w)) = players (room w)
   \<and> registered (fire now rnd h w) = registered w"
  by (simp add: fire_def Let_def startNewRound_players selectWord_players
           split: option.split timerAction.split list.split)

lemma resetToLobby_hosts:
  "map isHost (players (room (resetToLobby w))) = map isHost (players (room w))
   \<and> registered (resetToLobby w) = registered w"
  by (simp add: resetToLobby_def Let_def comp_def)

lemma processGuess_hosts:
  "map isHost (players (room (snd (processGuess toUpperCase sid guess w))))
     = map isHost (players (room w))
   \<and> registered (snd (processGuess toUpperCase sid guess w)) = registered w"
  by (simp add: processGuess_def Let_def split: option.split)

lemma updateSettings_players:
  assumes "KPlayers \<notin> keyOf ` set settings"
  shows "players (room (updateSettings settings w)) = players (room w)
       \<and> registered (updateSettings settings w) = registered w"
proof -
  from assms have "readField KPlayers (objectAssign (room w) settings) = readField KPlayers (room w)"
    by (rule readField_objectAssign_other)
  then show ?thesis
    by (simp add: updateSettings_def)
qed

lemma findIndex_Some:
  "findIndex P xs = Some i \<Longrightarrow> i < length xs \<and> P (xs ! i)"
  by (induction xs arbitrary: i) (auto split: if_splits option.splits)

lemma hosts_splice1:
  "i < length ps \<Longrightarrow>
     length (filter isHost ps)
       = length (filter isHost (splice1 i ps)) + (if isHost (ps ! i) then 1 else 0)"
  unfolding splice1_def
proof (induction ps arbitrary: i)
  case Nil
  then show ?case by simp
next
  case (Cons p ps)
  then show ?case by (cases i) auto
qed

lemma length_splice1: "i < length ps \<Longrightarrow> Suc (length (splice1 i ps)) = length ps"
  by (simp add: splice1_def)

lemma hosts_appoint:
  "j < length ps \<Longrightarrow> filter isHost ps = [] \<Longrightarrow>
     length (filter isHost (ps[j := (ps ! j)\<lparr>isHost := True\<rparr>])) = 1"
proof (induction ps arbitrary: j)
  case Nil
  then show ?case by simp
next
  case (Cons p ps)
  then show ?case by (cases j) (auto split: if_splits)
qed

lemma leaveRoom_absent:
  "\<not> registered w \<or> findIndex (\<lambda>p. socketId p = sid) (players (room w)) = None \<Longrightarrow>
     snd (leaveRoom hostRand sid w) = w"
  by (auto simp: leaveRoom_def)

lemma leaveRoom_last:
  assumes "registered w" and "findIndex (\<lambda>p. socketId p = sid) (players (room w)) = Some i"
    and "splice1 i (players (room w)) = []"
  shows "players (room (snd (leaveRoom hostRand sid w))) = []"
    and "\<not> registered (snd (leaveRoom hostRand sid w))"
  using assms by (simp_all add: leaveRoom_def Let_def)

lemma leaveRoom_remaining:
  assumes "registered w" and "findIndex (\<lambda>p. socketId p = sid) (players (room w)) = Some i"
    and "splice1 i (players (room w)) \<noteq> []"
  shows "players (room (snd (leaveRoom hostRand sid w))) =
           (if isHost (players (room w) ! i)
            then (splice1 i (players (room w)))
                   [hostRand mod length (splice1 i (players (room w))) :=
                      (splice1 i (players (room w))
                         ! (hostRand mod length (splice1 i (players (room w)))))\<lparr>isHost := True\<rparr>]
            else splice1 i (players (room w)))"
    and "registered (snd (leaveRoom hostRand sid w))"
  using assms by (simp_all add: leaveRoom_def Let_def)

lemma leaveRoom_hostInv:
  assumes "hostInv w"
  shows "hostInv (snd (leaveRoom hostRand sid w))"
proof (cases "registered w")
  case False
  with assms show ?thesis by (simp add: leaveRoom_absent)
next
  case reg: True
  show ?thesis
  proof (cases "findIndex (\<lambda>p. socketId p = sid) (players (room w))")
    case None
    with assms show ?thesis by (simp add: leaveRoom_absent)
  next
    case (Some i)
    let ?rest = "splice1 i (players (room w))"
    from Some have i: "i < length (players (room w))"
      by (simp add: findIndex_Some)
    from assms reg have one: "length (filter isHost (players (room w))) = 1"
      by (simp add: hostInv_def hostCount_def)
    show ?thesis
    proof (cases "?rest = []")
      case True
      with reg Some show ?thesis
        by (simp add: hostInv_def leaveRoom_last)
    next
      case rest: False
      note after = leaveRoom_remaining [OF reg Some rest, of hostRand]
      show ?thesis
      proof (cases "isHost (players (room w) ! i)")
        case True
        with hosts_splice1 [OF i] one have "filter isHost ?rest = []"
          by simp
        moreover from rest have "hostRand mod length ?rest < length ?rest"
          by simp
        ultimately have "length (filter isHost (?rest[hostRand mod length ?rest :=
                           (?rest ! (hostRand mod length ?rest))\<lparr>isHost := True\<rparr>])) = 1"
          by (intro hosts_appoint)
        with True after show ?thesis
          by (simp add: hostInv_def hostCount_def)
      next
        case False
        with hosts_splice1 [OF i] one have "length (filter isHost ?rest) = 1"
          by simp
        with False after show ?thesis
          by (simp add: hostInv_def hostCount_def)
      qed
    qed
  qed
qed

lemma joinRoom_hostInv:
  assumes "hostInv w"
  shows "hostInv (snd (joinRoom username av sid w))"
  using assms by (simp add: joinRoom_def Let_def hostInv_def hostCount_def)

lemma reachable_hostInv: "reachable w \<Longrightarrow> hostInv w"
proof (induction rule: reachable.induct)
  case (created roomId username avatar' sid drawTime' rounds)
  show ?case by (simp add: hostInv_def hostCount_def createRoom_def)
next
  case (joined w username avatar' sid)
  then show ?case by (simp add: joinRoom_hostInv)
next
  case (left w hostRand sid)
  then show ?case by (simp add: leaveRoom_hostInv)
next
  case (updated w settings)
  then show ?case by (auto intro: hostInv_frame simp: updateSettings_players)
next
  case (started w)
  then show ?case by (auto intro: hostInv_frame simp: startGame_players)
next
  case (reset w)
  then show ?case by (auto intro: hostInv_frame simp: resetToLobby_hosts)
next
  case (selected w now word)
  then show ?case by (auto intro: hostInv_frame simp: selectWord_players)
next
  case (guessed w sid guess)
  then show ?case by (auto intro: hostInv_frame simp: processGuess_hosts)
next
  case (fired w now rnd h)
  then show ?case by (auto intro: hostInv_frame simp: fire_players)
qed

lemma map_pid_appoint:
  "j < length ps \<Longrightarrow> map pid (ps[j := (ps ! j)\<lparr>isHost := True\<rparr>]) = map pid ps"
  by (simp add: map_update list_update_same_conv)

text \<open>
  C9 (as the code has it). In every state that is reached without a settings update naming
  \<open>players\<close>, a room with players has exactly one host. A player who joins is appended
  with \<open>isHost = false\<close>. When a listed player leaves, the list shrinks by exactly one; and
  when that player is the host and others remain, the player at the index drawn at random
  among the remaining ones is made host, and is then the only host.
\<close>

theorem C9_exactly_one_host:
  assumes "reachable w"
  shows "(players (room w) \<noteq> [] \<longrightarrow> hostCount w = 1)
       \<and> (\<forall>v. fst (joinRoom username av sid w) = Inr v \<longrightarrow>
            players (room (snd (joinRoom username av sid w)))
              = players (room w) @ [\<lparr>pid = sid, name = username, score = 0, isHost = False,
                                      avatar = av, socketId = sid\<rparr>])
       \<and> (\<forall>i. findIndex (\<lambda>p. socketId p = leaver) (players (room w)) = Some i \<longrightarrow>
            length (players (room (snd (leaveRoom hostRand leaver w)))) + 1
              = length (players (room w)))
       \<and> (\<forall>i. findIndex (\<lambda>p. socketId p = leaver) (players (room w)) = Some i
               \<and> isHost (players (room w) ! i) \<and> 1 < length (players (room w)) \<longrightarrow>
            hostCount (snd (leaveRoom hostRand leaver w)) = 1
          \<and> isHost (players (room (snd (leaveRoom hostRand leaver w)))
                      ! (hostRand mod length (players (room (snd (leaveRoom hostRand leaver w))))))
          \<and> map pid (players (room (snd (leaveRoom hostRand leaver w))))
              = map pid (splice1 i (players (room w))))"
proof -
  from assms have inv: "hostInv w"
    by (rule reachable_hostInv)
  let ?w' = "snd (leaveRoom hostRand leaver w)"
  have one: "players (room w) \<noteq> [] \<longrightarrow> hostCount w = 1"
    using inv by (auto simp: hostInv_def)
  have join: "\<forall>v. fst (joinRoom username av sid w) = Inr v \<longrightarrow>
            players (room (snd (joinRoom username av sid w)))
              = players (room w) @ [\<lparr>pid = sid, name = username, score = 0, isHost = False,
                                      avatar = av, socketId = sid\<rparr>]"
    by (simp add: joinRoom_def Let_def)
  have leave: "length (players (room ?w')) + 1 = length (players (room w))
             \<and> (isHost (players (room w) ! i) \<and> 1 < length (players (room w)) \<longrightarrow>
                  hostCount ?w' = 1
                \<and> isHost (players (room ?w') ! (hostRand mod length (players (room ?w'))))
                \<and> map pid (players (room ?w')) = map pid (splice1 i (players (room w))))"
    if found: "findIndex (\<lambda>p. socketId p = leaver) (players (room w)) = Some i" for i
  proof -
    let ?rest = "splice1 i (players (room w))"
    from found have i: "i < length (players (room w))"
      by (simp add: findIndex_Some)
    then have "players (room w) \<noteq> []"
      by auto
    with inv have reg: "registered w"
      by (auto simp: hostInv_def)
    from i have len: "Suc (length ?rest) = length (players (room w))"
      by (rule length_splice1)
    show ?thesis
    proof (cases "?rest = []")
      case True
      with len reg found show ?thesis
        by (simp add: leaveRoom_last)
    next
      case False
      note after = leaveRoom_remaining [OF reg found False, of hostRand]
      from False have j: "hostRand mod length ?rest < length ?rest"
        by simp
      from inv have "hostInv ?w'"
        by (rule leaveRoom_hostInv)
      with after(2) have "hostCount ?w' = 1"
        by (simp add: hostInv_def)
      with after(1) len j show ?thesis
        by (simp add: map_pid_appoint)
    qed
  qed
  from one join leave show ?thesis
    by blast
qed

theorem C9_exactly_one_host_witness:
  "reachable demoLobby \<and> players (room demoLobby) \<noteq> [] \<and> hostCount demoLobby = 1
   \<and> findIndex (\<lambda>p. socketId p = ''s1'') (players (room demoLobby)) = Some 0
   \<and> isHost (players (room demoLobby) ! 0) \<and> 1 < length (players (room demoLobby))
   \<and> length (players (room (snd (leaveRoom 0 ''s1'' demoLobby)))) + 1
       = length (players (room demoLobby))
   \<and> hostCount (snd (leaveRoom 0 ''s1'' demoLobby)) = 1
   \<and> map pid (players (room (snd (leaveRoom 0 ''s1'' demoLobby)))) = [''s2'']"
proof -
  have r: "reachable demoLobby"
    unfolding demoLobby_def by (intro reachable.joined reachable.created)
  have h: "players (room demoLobby) \<noteq> []"
    "findIndex (\<lambda>p. socketId p = ''s1'') (players (room demoLobby)) = Some 0"
    "isHost (players (room demoLobby) ! 0)" "1 < length (players (room demoLobby))"
    by code_simp+
  have s: "map pid (splice1 0 (players (room demoLobby))) = [''s2'']"
    by code_simp
  note t = C9_exactly_one_host [OF r, of "''x''" "''y''" "''z''" "''s1''" 0]
  from t h have "hostCount demoLobby = 1"
    "length (players (room (snd (leaveRoom 0 ''s1'' demoLobby)))) + 1
       = length (players (room demoLobby))"
    "hostCount (snd (leaveRoom 0 ''s1'' demoLobby)) = 1"
    "map pid (players (room (snd (leaveRoom 0 ''s1'' demoLobby))))
       = map pid (splice1 0 (players (room demoLobby)))"
    by blast+
  with r h s show ?thesis
    by simp
qed

text \<open>
  C9 (as the specification states it) fails: \<open>updateSettings\<close> copies a \<open>players\<close> key like
  any other, and the room then has the hosts the payload gives it, here two.
\<close>

theorem C9_payload_players_counterexample:
  "reachable demoLobby \<and> registered demoTwoHosts
   \<and> players (room demoTwoHosts) \<noteq> [] \<and> map isHost (players (room demoTwoHosts)) = [True, True]
   \<and> hostCount demoTwoHosts = 2"
proof -
  have "reachable demoLobby"
    unfolding demoLobby_def by (intro reachable.joined reachable.created)
  moreover have "registered demoTwoHosts" "players (room demoTwoHosts) \<noteq> []"
    "map isHost (players (room demoTwoHosts)) = [True, True]" "hostCount demoTwoHosts = 2"
    by code_simp+
  ultimately show ?thesis
    by simp
qed

section \<open>Settings updates\<close>

text \<open>
  C10. For an existing room, \<open>updateSettings\<close> copies every key of the payload onto the
  room, whatever the phase, the caller or the value: after the call the room holds under
  each key of the payload the payload's value (a payload, being an object, names a key
  once), every other field is unchanged, and the timers are untouched. So a payload that
  names \<open>status\<close>, \<open>players\<close>, \<open>currentDrawerId\<close>, \<open>currentWord\<close> or \<open>secretWord\<close>
  overwrites them.
\<close>

theorem C10_updateSettings_merges_unchecked:
  assumes "registered w" and "distinct (map keyOf settings)"
  shows "(\<forall>u \<in> set settings. readField (keyOf u) (room (updateSettings settings w)) = u)
       \<and> (\<forall>k. k \<notin> keyOf ` set settings \<longrightarrow>
             readField k (room (updateSettings settings w)) = readField k (room w))
       \<and> timer (room (updateSettings settings w)) = timer (room w)
       \<and> registered (updateSettings settings w)
       \<and> live (updateSettings settings w) = live w
       \<and> view (updateSettings settings w) = Some (getPublicRoom (objectAssign (room w) settings))"
  using assms
  by (simp add: updateSettings_def view_def readField_objectAssign_key
                readField_objectAssign_other timer_objectAssign)

theorem C10_updateSettings_merges_unchecked_witness:
  "registered demoDrawing
   \<and> distinct (map keyOf [SetStatus Ended, SetSecretWord (Some (js ''DOG'')), SetPlayers [],
                           SetCurrentDrawerId (Some ''s2''), SetCurrentWord (Some (js ''DOG''))])
   \<and> status (room (updateSettings [SetStatus Ended, SetSecretWord (Some (js ''DOG'')), SetPlayers [],
                           SetCurrentDrawerId (Some ''s2''), SetCurrentWord (Some (js ''DOG''))]
                         demoDrawing)) = Ended
   \<and> secretWord (room (updateSettings [SetStatus Ended, SetSecretWord (Some (js ''DOG'')), SetPlayers [],
                           SetCurrentDrawerId (Some ''s2''), SetCurrentWord (Some (js ''DOG''))]
                         demoDrawing)) = Some (js ''DOG'')
   \<and> players (room (updateSettings [SetStatus Ended, SetSecretWord (Some (js ''DOG'')), SetPlayers [],
                           SetCurrentDrawerId (Some ''s2''), SetCurrentWord (Some (js ''DOG''))]
                         demoDrawing)) = []
   \<and> roundPhase (room (updateSettings [SetStatus Ended, SetSecretWord (Some (js ''DOG'')), SetPlayers [],
                           SetCurrentDrawerId (Some ''s2''), SetCurrentWord (Some (js ''DOG''))]
                         demoDrawing)) = roundPhase (room demoDrawing)"
proof -
  let ?p = "[SetStatus Ended, SetSecretWord (Some (js ''DOG'')), SetPlayers [],
             SetCurrentDrawerId (Some ''s2''), SetCurrentWord (Some (js ''DOG''))]"
  have r: "registered demoDrawing"
    by code_simp
  have d: "distinct (map keyOf ?p)"
    by simp
  note m = C10_updateSettings_merges_unchecked [OF r d]
  from m have "readField (keyOf (SetStatus Ended)) (room (updateSettings ?p demoDrawing))
                 = SetStatus Ended"
    by simp
  moreover from m have "readField (keyOf (SetSecretWord (Some (js ''DOG''))))
                          (room (updateSettings ?p demoDrawing)) = SetSecretWord (Some (js ''DOG''))"
    by simp
  moreover from m have "readField (keyOf (SetPlayers [])) (room (updateSettings ?p demoDrawing))
                          = SetPlayers []"
    by simp
  moreover from m have "KRoundPhase \<notin> keyOf ` set ?p \<longrightarrow>
                          readField KRoundPhase (room (updateSettings ?p demoDrawing))
                            = readField KRoundPhase (room demoDrawing)"
    by blast
  then have "readField KRoundPhase (room (updateSettings ?p demoDrawing))
               = readField KRoundPhase (room demoDrawing)"
    by simp
  ultimately show ?thesis
    using r d by simp
qed

end
